theory Spec2Isabelle
  imports Complex_Main
begin

section \<open>Data model of \<open>kernel_perceptron.py\<close>\<close>

text \<open>
  The class \<open>Kernel_perceptron\<close> keeps a numpy weight matrix (\<open>classifier\<close>) that
  \<open>train\<close> updates in place and that \<open>predict\<close> and the evaluation methods read.
  Conventions of the embedding:
  \<^item> a float is the real number it stands for. The errors and the stopping rule of
    \<open>train\<close> are computed as the program computes them, in IEEE binary64: every
    operation there rounds its exact result to the nearest double (\<open>fl\<close>), and the
    infinities and \<open>nan\<close> are the other constructors of \<open>xfloat\<close>. The sums of products
    behind the confidences and the kernel values are not rounded;
  \<^item> a 2-D array is the list of its rows, a 1-D array is a list;
  \<^item> an index array holds natural numbers (negative indices, which numpy counts from the
    end, are outside the model, except for the labels, which are integers);
  \<^item> every exception is a value of \<open>error\<close>: a method returns \<open>error + result\<close>;
  \<^item> a method takes the object and returns it with its result, so that what a method leaves
    of the object is part of what is proved.
\<close>

datatype error =
    IndexError          \<comment> \<open>an index outside an array\<close>
  | ValueError          \<comment> \<open>negative dimension, shapes that do not broadcast, argmax of nothing\<close>
  | ZeroDivisionError   \<comment> \<open>\<open>mistakes/self.dataset.size\<close> on Python integers\<close>
  | UnboundLocalError   \<comment> \<open>\<open>return train_error\<close> when no epoch ran\<close>
  | AttributeError      \<comment> \<open>an attribute that \<open>__init__\<close> did not set\<close>
  | TypeError           \<comment> \<open>\<open>enumerate(None)\<close>\<close>
  | OverflowError       \<comment> \<open>a quotient of Python integers too large for a float\<close>

datatype xfloat = Fin real | PInf | MInf | NaN

type_synonym matrix = "real list list"

text \<open>
  Modelled from the spec: the class \<open>LabelledDataset\<close> of \<open>helper.py\<close> is not among the
  sources. The spec gives its interface: an ordered sequence of feature vectors (\<open>data\<close>), a
  parallel sequence of integer labels (\<open>labels\<close>) and an integer \<open>size\<close> (here
  \<open>dsize\<close>, a natural number).
\<close>

record labelled_dataset =
  data :: "real list list"
  labels :: "int list"
  dsize :: nat

text \<open>
  The attributes of the object. \<open>classifier\<close> and \<open>OvO_indices\<close> are set by \<open>__init__\<close>
  only in some branches and \<open>kernel_func\<close> is set nowhere in the class, so they are
  optional: \<open>None\<close> is the missing attribute.
\<close>

record kernel_perceptron =
  dataset :: labelled_dataset
  test_set :: labelled_dataset
  nclasses :: int
  kernel_mtx :: matrix
  train_indices :: "nat list"
  test_indices :: "nat list"
  kernel_param :: real
  classification_method :: string
  classifier :: "matrix option"
  OvO_indices :: "(nat \<times> nat) list option"
  kernel_func :: "string option"

section \<open>Construction\<close>

definition zeros :: "nat \<Rightarrow> nat \<Rightarrow> matrix" where
  "zeros r c = replicate r (replicate c 0)"

text \<open>
  The two nested \<open>for\<close> loops of \<open>__init__\<close> that append the pairs:
  \<open>for idx1 in range(nclasses-1): for idx2 in range(idx1+1, nclasses): append((idx1, idx2))\<close>.
\<close>

definition OvO_inner :: "int \<Rightarrow> nat \<Rightarrow> (nat \<times> nat) list \<Rightarrow> (nat \<times> nat) list" where
  "OvO_inner k idx1 acc = fold (\<lambda>idx2 a. a @ [(idx1, idx2)]) [idx1 + 1 ..< nat k] acc"

definition OvO_pairs :: "int \<Rightarrow> (nat \<times> nat) list" where
  "OvO_pairs k = fold (\<lambda>idx1 a. OvO_inner k idx1 a) [0 ..< nat (k - 1)] []"

text \<open>
  \<open>__init__\<close>. It validates nothing and raises nothing of its own; the only exception is
  numpy's \<open>ValueError\<close> for \<open>np.zeros\<close> with a negative dimension, which the \<open>'OvA'\<close>
  branch meets when \<open>nclasses < 0\<close> (in the \<open>'OvO'\<close> branch \<open>k*(k-1)/2\<close> is never
  negative). With any other method no weight matrix is allocated.
\<close>

definition init ::
  "labelled_dataset \<Rightarrow> labelled_dataset \<Rightarrow> nat list \<Rightarrow> nat list \<Rightarrow> int \<Rightarrow> matrix \<Rightarrow> real \<Rightarrow>
   string \<Rightarrow> error + kernel_perceptron" where
  "init ds ts tr_idx te_idx k kmtx kparam cmethod =
     (let self = \<lparr> dataset = ds, test_set = ts, nclasses = k, kernel_mtx = kmtx,
                   train_indices = tr_idx, test_indices = te_idx, kernel_param = kparam,
                   classification_method = cmethod, classifier = None, OvO_indices = None,
                   kernel_func = None \<rparr>
      in if cmethod = ''OvA'' then
           (if k < 0 then Inl ValueError
            else Inr (self\<lparr>classifier := Some (zeros (nat k) (dsize ds))\<rparr>))
         else if cmethod = ''OvO'' then
           Inr (self\<lparr>classifier := Some (zeros (nat (k * (k - 1) div 2)) (dsize ds)),
                     OvO_indices := Some (OvO_pairs k)\<rparr>)
         else Inr self)"

section \<open>Array helpers\<close>

text \<open>A Python result or the exception: the list of results, or the first exception.\<close>

fun sequence_e :: "(error + 'a) list \<Rightarrow> error + 'a list" where
  "sequence_e [] = Inr []"
| "sequence_e (x # xs) =
     (case x of Inl e \<Rightarrow> Inl e
      | Inr v \<Rightarrow> (case sequence_e xs of Inl e \<Rightarrow> Inl e | Inr vs \<Rightarrow> Inr (v # vs)))"

definition dot :: "real list \<Rightarrow> real list \<Rightarrow> real" where
  "dot xs ys = sum_list (map2 (*) xs ys)"

definition column :: "nat \<Rightarrow> matrix \<Rightarrow> real list" where
  "column j M = map (\<lambda>row. row ! j) M"

definition lookup :: "matrix \<Rightarrow> nat \<Rightarrow> nat \<Rightarrow> error + real" where
  "lookup M i j =
     (if i < length M \<and> j < length (M ! i) then Inr (M ! i ! j) else Inl IndexError)"

text \<open>
  \<open>kernel_mtx[rows, np.transpose(cols)]\<close> with \<open>rows\<close> a column of indices: the block
  whose entry \<open>(i, j)\<close> is \<open>kernel_mtx[rows[i], cols[j]]\<close>; an index outside the matrix
  raises \<open>IndexError\<close>.
\<close>

definition kernel_block :: "matrix \<Rightarrow> nat list \<Rightarrow> nat list \<Rightarrow> error + matrix" where
  "kernel_block M rs cs = sequence_e (map (\<lambda>i. sequence_e (map (\<lambda>j. lookup M i j) cs)) rs)"

text \<open>\<open>np.dot(W, K)\<close> for \<open>K\<close> with \<open>m\<close> columns (the shapes are checked by the caller).\<close>

definition np_dot_mm :: "matrix \<Rightarrow> matrix \<Rightarrow> nat \<Rightarrow> matrix" where
  "np_dot_mm W K m = map (\<lambda>row. map (\<lambda>j. dot row (column j K)) [0 ..< m]) W"

text \<open>\<open>A[r, c] += d\<close>.\<close>

definition add_at :: "matrix \<Rightarrow> nat \<Rightarrow> nat \<Rightarrow> real \<Rightarrow> error + matrix" where
  "add_at W r c d =
     (if r < length W \<and> c < length (W ! r)
      then Inr (W[r := (W ! r)[c := W ! r ! c + d]]) else Inl IndexError)"

text \<open>\<open>np.argmax\<close> of a non-empty 1-D array: the first position of the maximum.\<close>

fun argmax_aux :: "'a::linorder list \<Rightarrow> nat \<Rightarrow> nat \<Rightarrow> 'a \<Rightarrow> nat" where
  "argmax_aux [] i best v = best"
| "argmax_aux (x # xs) i best v =
     (if v < x then argmax_aux xs (Suc i) i x else argmax_aux xs (Suc i) best v)"

fun argmax :: "'a::linorder list \<Rightarrow> nat" where
  "argmax [] = 0"
| "argmax (x # xs) = argmax_aux xs 1 0 x"

subsection \<open>The floats of the stopping rule\<close>

text \<open>
  A positive real \<open>a\<close> as \<open>s * 2 ^ e\<close> with \<open>1 \<le> s < 2\<close>, the exponent kept within the
  range of binary64: at \<open>e = - 1022\<close> the number is subnormal when \<open>s < 1\<close>, and at
  \<open>e = 1023\<close> it is beyond the largest double when \<open>2 \<le> s\<close>.
\<close>

function norm_up :: "real \<Rightarrow> int \<Rightarrow> real \<times> int" where
  "norm_up s e = (if 2 \<le> s \<and> e < 1023 then norm_up (s / 2) (e + 1) else (s, e))"
  by pat_completeness auto
termination
  by (relation "measure (\<lambda>(s, e). nat (1023 - e))") auto

function norm_down :: "real \<Rightarrow> int \<Rightarrow> real \<times> int" where
  "norm_down s e = (if s < 1 \<and> - 1022 < e then norm_down (s * 2) (e - 1) else (s, e))"
  by pat_completeness auto
termination
  by (relation "measure (\<lambda>(s, e). nat (e + 1022))") auto

text \<open>The nearest integer, the even one of two that are equally near.\<close>

definition round_half_even :: "real \<Rightarrow> int" where
  "round_half_even t =
     (let n = \<lfloor>t\<rfloor>; r = t - of_int n
      in if r < 1 / 2 then n else if r > 1 / 2 then n + 1
         else if even n then n else n + 1)"

text \<open>
  The double that an operation returns for the exact result \<open>x\<close>: \<open>x\<close> rounded to 53
  significant bits (\<open>4503599627370496 = 2 ^ 52\<close>), to nearest and ties to even, with the
  subnormal numbers below \<open>2 ^ - 1022\<close> and an infinity from \<open>2 ^ 1024\<close> on.
\<close>

definition fl :: "real \<Rightarrow> xfloat" where
  "fl x =
     (if x = 0 then Fin 0
      else
        let a = \<bar>x\<bar>;
            (s, e) = (if 1 \<le> a then norm_up a 0 else norm_down a 0);
            m = round_half_even (s * 4503599627370496)
        in if e = 1023 \<and> 9007199254740992 \<le> m then (if x < 0 then MInf else PInf)
           else let r = of_int m / 4503599627370496 * 2 powi e
                in Fin (if x < 0 then - r else r))"

text \<open>Negation, addition, subtraction, multiplication and \<open>x < y\<close> on floats.\<close>

fun xneg :: "xfloat \<Rightarrow> xfloat" where
  "xneg (Fin a) = Fin (- a)"
| "xneg PInf = MInf"
| "xneg MInf = PInf"
| "xneg NaN = NaN"

fun xadd :: "xfloat \<Rightarrow> xfloat \<Rightarrow> xfloat" where
  "xadd (Fin a) (Fin b) = fl (a + b)"
| "xadd NaN y = NaN"
| "xadd x NaN = NaN"
| "xadd PInf MInf = NaN"
| "xadd MInf PInf = NaN"
| "xadd PInf y = PInf"
| "xadd x PInf = PInf"
| "xadd MInf y = MInf"
| "xadd x MInf = MInf"

definition xsub :: "xfloat \<Rightarrow> xfloat \<Rightarrow> xfloat" where
  "xsub x y = xadd x (xneg y)"

fun xmul :: "xfloat \<Rightarrow> xfloat \<Rightarrow> xfloat" where
  "xmul (Fin a) (Fin b) = fl (a * b)"
| "xmul NaN y = NaN"
| "xmul x NaN = NaN"
| "xmul (Fin a) y = (if a = 0 then NaN else if 0 < a then y else xneg y)"
| "xmul x (Fin b) = (if b = 0 then NaN else if 0 < b then x else xneg x)"
| "xmul PInf y = y"
| "xmul MInf y = xneg y"

text \<open>\<open>x < y\<close> is false as soon as one side is \<open>nan\<close>.\<close>

fun xlt :: "xfloat \<Rightarrow> xfloat \<Rightarrow> bool" where
  "xlt (Fin a) (Fin b) = (a < b)"
| "xlt NaN y = False"
| "xlt x NaN = False"
| "xlt x MInf = False"
| "xlt PInf y = False"
| "xlt MInf y = True"
| "xlt x PInf = True"

text \<open>
  \<open>mistakes/size\<close> with \<open>mistakes\<close> a numpy integer (the result of \<open>np.sum\<close>): a zero
  divisor gives \<open>nan\<close> or \<open>inf\<close> and a warning, not an exception. Both integers are
  converted to doubles, exactly as long as they are below \<open>2 ^ 53\<close>, and divided.
\<close>

definition np_true_divide :: "nat \<Rightarrow> nat \<Rightarrow> xfloat" where
  "np_true_divide m d =
     (if d = 0 then (if m = 0 then NaN else PInf) else fl (real m / real d))"

section \<open>Prediction\<close>

text \<open>
  The inner loop of the \<open>'OvO'\<close> branch of \<open>predict\<close>: one vote per pair, for the first
  class of the pair when the confidence is positive, else for the second.
\<close>

fun vote_loop :: "real list \<Rightarrow> (nat \<times> nat \<times> nat) list \<Rightarrow> nat list \<Rightarrow> error + nat list" where
  "vote_loop conf [] tally = Inr tally"
| "vote_loop conf ((class_idx, a, b) # ps) tally =
     (if length conf \<le> class_idx then Inl IndexError
      else if conf ! class_idx > 0 then
        (if a < length tally then vote_loop conf ps (tally[a := tally ! a + 1])
         else Inl IndexError)
      else
        (if b < length tally then vote_loop conf ps (tally[b := tally ! b + 1])
         else Inl IndexError))"

text \<open>The body of the loop over the points in the \<open>'OvO'\<close> branch.\<close>

definition OvO_decide :: "kernel_perceptron \<Rightarrow> real list \<Rightarrow> error + nat" where
  "OvO_decide self this_confidence =
     (if nclasses self < 0 then Inl ValueError
      else case OvO_indices self of None \<Rightarrow> Inl AttributeError
      | Some ps \<Rightarrow>
          (case vote_loop this_confidence (enumerate 0 ps) (replicate (nat (nclasses self)) 0) of
             Inl e \<Rightarrow> Inl e
           | Inr tally \<Rightarrow> if tally = [] then Inl ValueError else Inr (argmax tally)))"

text \<open>
  \<open>predict\<close>. The argument \<open>test_points\<close> is not read: the kernel block is the one between
  the stored \<open>train_indices\<close> and the stored \<open>test_indices\<close>. The weight matrix has
  \<open>dataset.size\<close> columns from its allocation on, which is what \<open>np.dot\<close> compares with the
  number of rows of the block. With a method other than the two, the method returns
  nothing (\<open>None\<close>).
\<close>

definition predict ::
  "kernel_perceptron \<Rightarrow> real list list \<Rightarrow> error + (nat list option \<times> kernel_perceptron)" where
  "predict self test_points =
     (case kernel_block (kernel_mtx self) (train_indices self) (test_indices self) of
        Inl e \<Rightarrow> Inl e
      | Inr K \<Rightarrow>
     (case classifier self of None \<Rightarrow> Inl AttributeError
      | Some W \<Rightarrow>
     if dsize (dataset self) \<noteq> length (train_indices self) then Inl ValueError
     else
       let m = length (test_indices self);
           confidence = np_dot_mm W K m
       in if classification_method self = ''OvA'' then
            (if confidence = [] then Inl ValueError
             else Inr (Some (map (\<lambda>j. argmax (column j confidence)) [0 ..< m]), self))
          else if classification_method self = ''OvO'' then
            (case sequence_e (map (\<lambda>this_dat. OvO_decide self (column this_dat confidence))
                                  [0 ..< m]) of
               Inl e \<Rightarrow> Inl e
             | Inr decisions \<Rightarrow> Inr (Some decisions, self))
          else Inr (None, self)))"

section \<open>Evaluation\<close>

text \<open>
  \<open>np.sum(predictions != labels)\<close>: elementwise, with numpy's broadcasting of an array
  of length one; \<open>None != labels\<close> is true at every position.
\<close>

definition np_count_ne :: "nat list option \<Rightarrow> int list \<Rightarrow> error + nat" where
  "np_count_ne predictions ls =
     (case predictions of None \<Rightarrow> Inr (length ls)
      | Some ps \<Rightarrow>
          if length ps = length ls then Inr (length (filter (\<lambda>(p, l). int p \<noteq> l) (zip ps ls)))
          else if length ps = 1 then Inr (length (filter (\<lambda>l. int (ps ! 0) \<noteq> l) ls))
          else if length ls = 1 then Inr (length (filter (\<lambda>p. int p \<noteq> ls ! 0) ps))
          else Inl ValueError)"

definition test_error :: "kernel_perceptron \<Rightarrow> error + (xfloat \<times> kernel_perceptron)" where
  "test_error self =
     (case predict self (data (test_set self)) of Inl e \<Rightarrow> Inl e
      | Inr (predictions, self1) \<Rightarrow>
          (case np_count_ne predictions (labels (test_set self1)) of Inl e \<Rightarrow> Inl e
           | Inr mistakes \<Rightarrow> Inr (np_true_divide mistakes (dsize (test_set self1)), self1)))"

text \<open>
  \<open>np.unique(labels, return_counts=True)\<close>: the count of every distinct label, in the
  order of the sorted distinct labels.
\<close>

definition np_unique_counts :: "int list \<Rightarrow> nat list" where
  "np_unique_counts ls = map (count_list ls) (sort (remdups ls))"

text \<open>A Python index into an axis of length \<open>n\<close>: a negative index counts from the end.\<close>

definition py_index :: "nat \<Rightarrow> int \<Rightarrow> nat option" where
  "py_index n i =
     (if 0 \<le> i \<and> i < int n then Some (nat i)
      else if - int n \<le> i \<and> i < 0 then Some (nat (i + int n))
      else None)"

text \<open>The loop of \<open>confusion_matrix\<close> over \<open>enumerate(predictions)\<close>.\<close>

fun conf_loop :: "int list \<Rightarrow> (nat \<times> nat) list \<Rightarrow> matrix \<Rightarrow> error + matrix" where
  "conf_loop ls [] C = Inr C"
| "conf_loop ls ((idx, pred) # rest) C =
     (if length ls \<le> idx then Inl IndexError
      else let y = ls ! idx in
        if int pred \<noteq> y then
          (case py_index (length C) y of None \<Rightarrow> Inl IndexError
           | Some r \<Rightarrow>
               (case add_at C r pred 1 of Inl e \<Rightarrow> Inl e | Inr C' \<Rightarrow> conf_loop ls rest C'))
        else conf_loop ls rest C)"

text \<open>
  \<open>np.divide(conf_mtx, np.transpose(counts))\<close>. \<open>counts\<close> is a 1-D array, which
  \<open>np.transpose\<close> returns as it is, and numpy broadcasts a 1-D array along the last
  axis: entry \<open>(i, j)\<close> is divided by \<open>counts[j]\<close>. The other cases are numpy's
  broadcasting of an axis of length one.
\<close>

definition np_divide :: "matrix \<Rightarrow> nat list \<Rightarrow> error + matrix" where
  "np_divide C counts =
     (let k = length C; u = length counts in
      if u = k then Inr (map (\<lambda>row. map (\<lambda>(x, c). x / real c) (zip row counts)) C)
      else if u = 1 then Inr (map (map (\<lambda>x. x / real (counts ! 0))) C)
      else if k = 1 then Inr (map (\<lambda>row. map (\<lambda>c. row ! 0 / real c) counts) C)
      else Inl ValueError)"

definition confusion_matrix :: "kernel_perceptron \<Rightarrow> error + (matrix \<times> kernel_perceptron)" where
  "confusion_matrix self =
     (let counts = np_unique_counts (labels (test_set self)) in
      if nclasses self < 0 then Inl ValueError
      else
        let conf_mtx = zeros (nat (nclasses self)) (nat (nclasses self)) in
        case predict self (data (test_set self)) of Inl e \<Rightarrow> Inl e
        | Inr (predictions, self1) \<Rightarrow>
            (case predictions of None \<Rightarrow> Inl TypeError
             | Some ps \<Rightarrow>
                 (case conf_loop (labels (test_set self1)) (enumerate 0 ps) conf_mtx of
                    Inl e \<Rightarrow> Inl e
                  | Inr C \<Rightarrow>
                      (case np_divide C counts of Inl e \<Rightarrow> Inl e
                       | Inr R \<Rightarrow> Inr (R, self1)))))"

text \<open>The loop of \<open>count_mistake_vec\<close> over \<open>enumerate(predictions)\<close>.\<close>

fun mistake_loop ::
  "int list \<Rightarrow> nat list \<Rightarrow> (nat \<times> nat) list \<Rightarrow> real list \<Rightarrow> error + real list" where
  "mistake_loop ls te_idx [] v = Inr v"
| "mistake_loop ls te_idx ((idx, pred) # rest) v =
     (if length ls \<le> idx then Inl IndexError
      else if int pred \<noteq> ls ! idx then
        (if length te_idx \<le> idx then Inl IndexError
         else if length v \<le> te_idx ! idx then Inl IndexError
         else mistake_loop ls te_idx rest (v[te_idx ! idx := v ! (te_idx ! idx) + 1]))
      else mistake_loop ls te_idx rest v)"

definition count_mistake_vec ::
  "kernel_perceptron \<Rightarrow> error + (real list \<times> kernel_perceptron)" where
  "count_mistake_vec self =
     (let mistake_vec = replicate (length (kernel_mtx self)) 0 in
      case predict self (data (test_set self)) of Inl e \<Rightarrow> Inl e
      | Inr (predictions, self1) \<Rightarrow>
          (case predictions of None \<Rightarrow> Inl TypeError
           | Some ps \<Rightarrow>
               (case mistake_loop (labels (test_set self1)) (test_indices self1)
                       (enumerate 0 ps) mistake_vec of
                  Inl e \<Rightarrow> Inl e
                | Inr v \<Rightarrow> Inr (v, self1))))"

section \<open>Training\<close>

text \<open>
  The loop over the classes in the \<open>'OvA'\<close> branch, on the pair of the mistake counter
  and the weight matrix. The confidence vector is the one computed before the loop.
\<close>

fun OvA_loop ::
  "real list \<Rightarrow> int list \<Rightarrow> nat \<Rightarrow> nat list \<Rightarrow> nat \<times> matrix \<Rightarrow> error + nat \<times> matrix" where
  "OvA_loop confidence ls data_idx [] mw = Inr mw"
| "OvA_loop confidence ls data_idx (this_class # cs) (mistakes, W) =
     (if length confidence \<le> this_class then Inl IndexError
      else if length ls \<le> data_idx then Inl IndexError
      else if confidence ! this_class > 0 \<and> int this_class \<noteq> ls ! data_idx then
        (case add_at W this_class data_idx (- 1) of Inl e \<Rightarrow> Inl e
         | Inr W' \<Rightarrow> OvA_loop confidence ls data_idx cs (mistakes + 1, W'))
      else if confidence ! this_class \<le> 0 \<and> int this_class = ls ! data_idx then
        (case add_at W this_class data_idx 1 of Inl e \<Rightarrow> Inl e
         | Inr W' \<Rightarrow> OvA_loop confidence ls data_idx cs (mistakes + 1, W'))
      else OvA_loop confidence ls data_idx cs (mistakes, W))"

text \<open>The two \<open>if\<close> statements of the \<open>'OvO'\<close> branch, for one pair.\<close>

definition OvO_first ::
  "real list \<Rightarrow> int list \<Rightarrow> nat \<Rightarrow> nat \<Rightarrow> nat \<Rightarrow> nat \<times> matrix \<Rightarrow> error + nat \<times> matrix" where
  "OvO_first confidence ls data_idx class_idx a mw =
     (if length ls \<le> data_idx then Inl IndexError
      else if int a = ls ! data_idx then
        (if length confidence \<le> class_idx then Inl IndexError
         else if confidence ! class_idx \<le> 0 then
           (case add_at (snd mw) class_idx data_idx 1 of Inl e \<Rightarrow> Inl e
            | Inr W' \<Rightarrow> Inr (fst mw + 1, W'))
         else Inr mw)
      else Inr mw)"

definition OvO_second ::
  "real list \<Rightarrow> int list \<Rightarrow> nat \<Rightarrow> nat \<Rightarrow> nat \<Rightarrow> nat \<times> matrix \<Rightarrow> error + nat \<times> matrix" where
  "OvO_second confidence ls data_idx class_idx b mw =
     (if length ls \<le> data_idx then Inl IndexError
      else if int b = ls ! data_idx then
        (if length confidence \<le> class_idx then Inl IndexError
         else if confidence ! class_idx > 0 then
           (case add_at (snd mw) class_idx data_idx (- 1) of Inl e \<Rightarrow> Inl e
            | Inr W' \<Rightarrow> Inr (fst mw + 1, W'))
         else Inr mw)
      else Inr mw)"

fun OvO_loop ::
  "real list \<Rightarrow> int list \<Rightarrow> nat \<Rightarrow> (nat \<times> nat \<times> nat) list \<Rightarrow> nat \<times> matrix \<Rightarrow>
   error + nat \<times> matrix" where
  "OvO_loop confidence ls data_idx [] mw = Inr mw"
| "OvO_loop confidence ls data_idx ((class_idx, a, b) # ps) mw =
     (case OvO_first confidence ls data_idx class_idx a mw of Inl e \<Rightarrow> Inl e
      | Inr mw1 \<Rightarrow>
          (case OvO_second confidence ls data_idx class_idx b mw1 of Inl e \<Rightarrow> Inl e
           | Inr mw2 \<Rightarrow> OvO_loop confidence ls data_idx ps mw2))"

text \<open>
  The body of the loop over the training examples: the confidence vector
  \<open>np.dot(self.classifier, K[data_idx,:])\<close>, then the updates of the method.
\<close>

definition train_example ::
  "kernel_perceptron \<Rightarrow> matrix \<Rightarrow> nat \<Rightarrow> nat \<Rightarrow> error + nat \<times> kernel_perceptron" where
  "train_example self K data_idx mistakes =
     (case classifier self of None \<Rightarrow> Inl AttributeError
      | Some W \<Rightarrow>
          if length K \<le> data_idx then Inl IndexError
          else if dsize (dataset self) \<noteq> length (K ! data_idx) then Inl ValueError
          else
            let confidence = map (\<lambda>row. dot row (K ! data_idx)) W in
            if classification_method self = ''OvA'' then
              (case OvA_loop confidence (labels (dataset self)) data_idx
                      [0 ..< nat (nclasses self)] (mistakes, W) of
                 Inl e \<Rightarrow> Inl e
               | Inr (mistakes', W') \<Rightarrow> Inr (mistakes', self\<lparr>classifier := Some W'\<rparr>))
            else if classification_method self = ''OvO'' then
              (case OvO_indices self of None \<Rightarrow> Inl AttributeError
               | Some ps \<Rightarrow>
                   (case OvO_loop confidence (labels (dataset self)) data_idx
                           (enumerate 0 ps) (mistakes, W) of
                      Inl e \<Rightarrow> Inl e
                    | Inr (mistakes', W') \<Rightarrow> Inr (mistakes', self\<lparr>classifier := Some W'\<rparr>)))
            else Inr (mistakes, self))"

text \<open>One pass: \<open>for data_idx, data_point in enumerate(self.dataset.data)\<close>.\<close>

fun epoch_loop ::
  "kernel_perceptron \<Rightarrow> matrix \<Rightarrow> nat list \<Rightarrow> nat \<Rightarrow> error + nat \<times> kernel_perceptron" where
  "epoch_loop self K [] mistakes = Inr (mistakes, self)"
| "epoch_loop self K (data_idx # rest) mistakes =
     (case train_example self K data_idx mistakes of Inl e \<Rightarrow> Inl e
      | Inr (mistakes', self') \<Rightarrow> epoch_loop self' K rest mistakes')"

text \<open>
  The stopping rule, on the errors of the epoch and of the one before:
  \<open>prev_train_error - train_error < epsilon or test_error > prev_test_error + 1e3*epsilon\<close>,
  every operation on doubles. \<open>epsilon\<close> is the number the caller gives; the program holds
  it as its nearest double \<open>fl epsilon\<close> (the default \<open>1e-5\<close> is \<open>fl (1 / 100000)\<close>), which
  is the number itself when that is a double.
\<close>

definition converged :: "real \<Rightarrow> xfloat \<Rightarrow> xfloat \<Rightarrow> real \<Rightarrow> xfloat \<Rightarrow> bool" where
  "converged epsilon prev_train_error prev_test_error train_err test_err \<longleftrightarrow>
     xlt (xsub prev_train_error (Fin train_err)) (fl epsilon) \<or>
     xlt (xadd prev_test_error (xmul (Fin 1000) (fl epsilon))) test_err"

text \<open>
  The body of \<open>for epoch in range(max_epochs)\<close> up to the stopping rule: one pass over
  the training examples, then the two errors. \<open>mistakes\<close> and \<open>self.dataset.size\<close> are
  Python integers: a size of zero raises, and otherwise \<open>/\<close> returns the double nearest to
  the exact quotient (or raises when that is no finite double).
\<close>

definition epoch ::
  "kernel_perceptron \<Rightarrow> matrix \<Rightarrow> error + real \<times> xfloat \<times> kernel_perceptron" where
  "epoch self K =
     (case epoch_loop self K [0 ..< length (data (dataset self))] 0 of Inl e \<Rightarrow> Inl e
      | Inr (mistakes, self1) \<Rightarrow>
          if dsize (dataset self1) = 0 then Inl ZeroDivisionError
          else
            (case fl (real mistakes / real (dsize (dataset self1))) of
               Fin train_err \<Rightarrow>
                 (case test_error self1 of Inl e \<Rightarrow> Inl e
                  | Inr (test_err, self2) \<Rightarrow> Inr (train_err, test_err, self2))
             | _ \<Rightarrow> Inl OverflowError))"

text \<open>
  The loop over the epochs, on the number of epochs left. \<open>last_err\<close> is the local
  variable \<open>train_error\<close>, unbound until an epoch has run.
\<close>

fun train_epochs ::
  "nat \<Rightarrow> real \<Rightarrow> matrix \<Rightarrow> xfloat \<Rightarrow> xfloat \<Rightarrow> real option \<Rightarrow> kernel_perceptron \<Rightarrow>
   error + real \<times> kernel_perceptron" where
  "train_epochs 0 epsilon K prev_train_error prev_test_error last_err self =
     (case last_err of None \<Rightarrow> Inl UnboundLocalError | Some train_err \<Rightarrow> Inr (train_err, self))"
| "train_epochs (Suc n) epsilon K prev_train_error prev_test_error last_err self =
     (case epoch self K of Inl e \<Rightarrow> Inl e
      | Inr (train_err, test_err, self2) \<Rightarrow>
          (if converged epsilon prev_train_error prev_test_error train_err test_err
           then Inr (train_err, self2)
           else train_epochs n epsilon K (Fin train_err) test_err (Some train_err) self2))"

definition train :: "kernel_perceptron \<Rightarrow> int \<Rightarrow> real \<Rightarrow> error + real \<times> kernel_perceptron" where
  "train self max_epochs epsilon =
     (case kernel_block (kernel_mtx self) (train_indices self) (train_indices self) of
        Inl e \<Rightarrow> Inl e
      | Inr K \<Rightarrow> train_epochs (nat max_epochs) epsilon K PInf PInf None self)"

section \<open>The kernel utility\<close>

text \<open>
  \<open>np.dot(x1, np.transpose(x2))\<close> and \<open>cdist(x1, x2)\<close> both combine every row of \<open>x1\<close>
  with every row of \<open>x2\<close> and raise \<open>ValueError\<close> when the rows differ in length.
\<close>

definition pairwise_e ::
  "(real list \<Rightarrow> real list \<Rightarrow> real) \<Rightarrow> matrix \<Rightarrow> matrix \<Rightarrow> error + matrix" where
  "pairwise_e f x1 x2 =
     sequence_e (map (\<lambda>u. sequence_e
       (map (\<lambda>v. if length u = length v then Inr (f u v) else Inl ValueError) x2)) x1)"

definition sq_dist :: "real list \<Rightarrow> real list \<Rightarrow> real" where
  "sq_dist u v = sum_list (map2 (\<lambda>a b. (a - b)\<^sup>2) u v)"

text \<open>
  \<open>np.power(x, p)\<close> on floats: the integer power for an integral \<open>p\<close>, the real power
  otherwise (where the float result is \<open>inf\<close> or \<open>nan\<close>, a zero base with a negative
  exponent or a negative base with a fractional one, the model gives some real number).
\<close>

definition np_power :: "real \<Rightarrow> real \<Rightarrow> real" where
  "np_power x p = (if p = of_int \<lfloor>p\<rfloor> then x powi \<lfloor>p\<rfloor> else x powr p)"

text \<open>
  \<open>kernel_output\<close>. It reads \<open>self.kernel_func\<close>, which \<open>__init__\<close> does not set. With a
  kernel type other than the two, no branch is taken and the method returns \<open>None\<close>.
\<close>

definition kernel_output ::
  "kernel_perceptron \<Rightarrow> matrix \<Rightarrow> matrix \<Rightarrow> error + (matrix option \<times> kernel_perceptron)" where
  "kernel_output self x1 x2 =
     (case kernel_func self of None \<Rightarrow> Inl AttributeError
      | Some kf \<Rightarrow>
          if kf = ''polynomial'' then
            (case pairwise_e dot x1 x2 of Inl e \<Rightarrow> Inl e
             | Inr G \<Rightarrow> Inr (Some (map (map (\<lambda>g. np_power g (kernel_param self))) G), self))
          else if kf = ''Gaussian'' then
            (case pairwise_e (\<lambda>u v. sqrt (sq_dist u v)) x1 x2 of Inl e \<Rightarrow> Inl e
             | Inr xdist \<Rightarrow>
                 Inr (Some (map (map (\<lambda>d. exp (- kernel_param self * d\<^sup>2))) xdist), self))
          else Inr (None, self))"

section \<open>Notions used in the statements\<close>

text \<open>
  The change that the rule of the \<open>'OvA'\<close> mode makes to the weight of class \<open>c\<close> at the
  column of the example, and the change and the number of mistakes of the rule of the
  \<open>'OvO'\<close> mode for the pair \<open>(a, b)\<close> at row \<open>p\<close>.
\<close>

definition OvA_delta :: "real list \<Rightarrow> int list \<Rightarrow> nat \<Rightarrow> nat \<Rightarrow> real" where
  "OvA_delta confidence ls data_idx c =
     (if confidence ! c > 0 \<and> int c \<noteq> ls ! data_idx then - 1
      else if confidence ! c \<le> 0 \<and> int c = ls ! data_idx then 1 else 0)"

definition OvO_delta :: "real list \<Rightarrow> int list \<Rightarrow> nat \<Rightarrow> nat \<Rightarrow> nat \<Rightarrow> nat \<Rightarrow> real" where
  "OvO_delta confidence ls data_idx p a b =
     (if int a = ls ! data_idx \<and> confidence ! p \<le> 0 then 1 else 0) +
     (if int b = ls ! data_idx \<and> confidence ! p > 0 then - 1 else 0)"

definition OvO_hits :: "real list \<Rightarrow> int list \<Rightarrow> nat \<Rightarrow> nat \<Rightarrow> nat \<Rightarrow> nat \<Rightarrow> nat" where
  "OvO_hits confidence ls data_idx p a b =
     (if int a = ls ! data_idx \<and> confidence ! p \<le> 0 then 1 else 0) +
     (if int b = ls ! data_idx \<and> confidence ! p > 0 then 1 else 0)"

text \<open>
  The shape that \<open>__init__\<close> gives the object in one of the two modes and that training
  keeps: a weight matrix with \<open>dataset.size\<close> columns and one row per class (\<open>'OvA'\<close>) or
  per pair of the pair index (\<open>'OvO'\<close>).
\<close>

definition allocated :: "kernel_perceptron \<Rightarrow> bool" where
  "allocated self \<longleftrightarrow>
     (case classifier self of None \<Rightarrow> False
      | Some W \<Rightarrow>
          list_all (\<lambda>row. length row = dsize (dataset self)) W \<and>
          (if classification_method self = ''OvA'' then length W = nat (nclasses self)
           else classification_method self = ''OvO'' \<and>
                OvO_indices self = Some (OvO_pairs (nclasses self)) \<and>
                int (length W) = nclasses self * (nclasses self - 1) div 2))"

text \<open>Every train and test index lies inside the kernel matrix.\<close>

definition indices_in_range :: "kernel_perceptron \<Rightarrow> bool" where
  "indices_in_range self \<longleftrightarrow>
     list_all (\<lambda>i. i < length (kernel_mtx self) \<and>
        list_all (\<lambda>j. j < length (kernel_mtx self ! i))
          (train_indices self @ test_indices self)) (train_indices self)"

text \<open>
  The epochs as the stopping rule of the spec speaks of them, with no stopping rule: the
  training error, the test error and the object after each of the first \<open>n\<close> epochs run
  one after the other (up to the first exception). \<open>stops_at\<close> is the rule in the spec's
  words, for epoch \<open>j\<close> (counted from zero) of such a run: the baseline is the pair of
  errors of the epoch before, and \<open>train0\<close>, \<open>test0\<close> for the first epoch. Its
  arithmetic is that of the doubles the errors and the tolerance are.
\<close>

fun history :: "nat \<Rightarrow> matrix \<Rightarrow> kernel_perceptron \<Rightarrow> (real \<times> xfloat \<times> kernel_perceptron) list" where
  "history 0 K self = []"
| "history (Suc n) K self =
     (case epoch self K of Inl e \<Rightarrow> []
      | Inr (train_err, test_err, self') \<Rightarrow> (train_err, test_err, self') # history n K self')"

definition stops_at ::
  "real \<Rightarrow> xfloat \<Rightarrow> xfloat \<Rightarrow> (real \<times> xfloat \<times> kernel_perceptron) list \<Rightarrow> nat \<Rightarrow> bool" where
  "stops_at epsilon train0 test0 h j \<longleftrightarrow>
     (let prev_train_error = (if j = 0 then train0 else Fin (fst (h ! (j - 1))));
          prev_test_error = (if j = 0 then test0 else fst (snd (h ! (j - 1))));
          train_err = fst (h ! j);
          test_err = fst (snd (h ! j))
      in xlt (xsub prev_train_error (Fin train_err)) (fl epsilon) \<or>
         xlt (xadd prev_test_error (xmul (Fin 1000) (fl epsilon))) test_err)"

text \<open>
  The training examples that triggered an update, in the order of the run: the indices at
  which the loop body raised the mistake counter, along one pass (\<open>epoch_updates\<close>), along
  the epochs that \<open>train\<close> runs before it stops (\<open>train_updates\<close>, which follows the
  recursion of \<open>train_epochs\<close>) and for a call of \<open>train\<close> (\<open>updated_examples\<close>). They
  observe the run and are no part of the program.
\<close>

fun epoch_updates :: "kernel_perceptron \<Rightarrow> matrix \<Rightarrow> nat list \<Rightarrow> nat \<Rightarrow> nat list" where
  "epoch_updates self K [] mistakes = []"
| "epoch_updates self K (data_idx # rest) mistakes =
     (case train_example self K data_idx mistakes of Inl e \<Rightarrow> []
      | Inr (mistakes', self') \<Rightarrow>
          (if mistakes < mistakes' then [data_idx] else []) @
          epoch_updates self' K rest mistakes')"

fun train_updates ::
  "nat \<Rightarrow> real \<Rightarrow> matrix \<Rightarrow> xfloat \<Rightarrow> xfloat \<Rightarrow> kernel_perceptron \<Rightarrow> nat list" where
  "train_updates 0 epsilon K prev_train_error prev_test_error self = []"
| "train_updates (Suc n) epsilon K prev_train_error prev_test_error self =
     epoch_updates self K [0 ..< length (data (dataset self))] 0 @
     (case epoch self K of Inl e \<Rightarrow> []
      | Inr (train_err, test_err, self2) \<Rightarrow>
          if converged epsilon prev_train_error prev_test_error train_err test_err then []
          else train_updates n epsilon K (Fin train_err) test_err self2)"

definition updated_examples :: "kernel_perceptron \<Rightarrow> int \<Rightarrow> real \<Rightarrow> nat list" where
  "updated_examples self max_epochs epsilon =
     (case kernel_block (kernel_mtx self) (train_indices self) (train_indices self) of
        Inl e \<Rightarrow> []
      | Inr K \<Rightarrow> train_updates (nat max_epochs) epsilon K PInf PInf self)"

text \<open>A weight matrix whose entries are all zero.\<close>

definition all_zero :: "matrix \<Rightarrow> bool" where
  "all_zero W \<longleftrightarrow> list_all (list_all (\<lambda>x. x = 0)) W"

section \<open>Example objects\<close>

text \<open>
  Small objects on which the statements are evaluated. \<open>ex_OvA\<close> and \<open>ex_OvO\<close> have one
  training point, two test points and weights as some training could have left them;
  \<open>ex_new\<close> is \<open>ex_OvA\<close> as constructed, with zero weights; \<open>ex_two\<close> has two training
  points of class \<open>0\<close> and one test point; \<open>ex_conf\<close> has four test points, one of class \<open>0\<close>
  and three of class \<open>1\<close>.
\<close>

definition ex_OvA :: kernel_perceptron where
  "ex_OvA = \<lparr>dataset = \<lparr>data = [[1]], labels = [0], dsize = 1\<rparr>,
             test_set = \<lparr>data = [[1], [2]], labels = [0, 1], dsize = 2\<rparr>,
             nclasses = 2, kernel_mtx = [[1, 1, 0], [1, 1, 0], [0, 0, 1]],
             train_indices = [0], test_indices = [1, 2], kernel_param = 1,
             classification_method = ''OvA'', classifier = Some [[0], [1]],
             OvO_indices = None, kernel_func = None\<rparr>"

definition ex_OvO :: kernel_perceptron where
  "ex_OvO = \<lparr>dataset = \<lparr>data = [[1]], labels = [1], dsize = 1\<rparr>,
             test_set = \<lparr>data = [[1], [2]], labels = [0, 1], dsize = 2\<rparr>,
             nclasses = 3, kernel_mtx = [[1, 1, 0], [1, 1, 0], [0, 0, 1]],
             train_indices = [0], test_indices = [1, 2], kernel_param = 1,
             classification_method = ''OvO'', classifier = Some [[1], [0], [0]],
             OvO_indices = Some [(0, 1), (0, 2), (1, 2)], kernel_func = None\<rparr>"

definition ex_new :: kernel_perceptron where
  "ex_new = \<lparr>dataset = \<lparr>data = [[1]], labels = [0], dsize = 1\<rparr>,
             test_set = \<lparr>data = [[1], [2]], labels = [0, 1], dsize = 2\<rparr>,
             nclasses = 2, kernel_mtx = [[1, 1, 0], [1, 1, 0], [0, 0, 1]],
             train_indices = [0], test_indices = [1, 2], kernel_param = 1,
             classification_method = ''OvA'', classifier = Some [[0], [0]],
             OvO_indices = None, kernel_func = None\<rparr>"

definition ex_two :: kernel_perceptron where
  "ex_two = \<lparr>dataset = \<lparr>data = [[1], [1]], labels = [0, 0], dsize = 2\<rparr>,
             test_set = \<lparr>data = [[1]], labels = [0], dsize = 1\<rparr>,
             nclasses = 2, kernel_mtx = [[1, 1, 1], [1, 1, 1], [1, 1, 1]],
             train_indices = [0, 1], test_indices = [2], kernel_param = 1,
             classification_method = ''OvA'', classifier = Some [[0, 0], [0, 0]],
             OvO_indices = None, kernel_func = None\<rparr>"

definition ex_conf :: kernel_perceptron where
  "ex_conf = \<lparr>dataset = \<lparr>data = [[1]], labels = [0], dsize = 1\<rparr>,
              test_set = \<lparr>data = [[1], [2], [3], [4]], labels = [0, 1, 1, 1], dsize = 4\<rparr>,
              nclasses = 2,
              kernel_mtx = [[1, 1, 1, 1, 1], [1, 1, 1, 1, 1], [1, 1, 1, 1, 1],
                            [1, 1, 1, 1, 1], [1, 1, 1, 1, 1]],
              train_indices = [0], test_indices = [1, 2, 3, 4], kernel_param = 1,
              classification_method = ''OvA'', classifier = Some [[0], [0]],
              OvO_indices = None, kernel_func = None\<rparr>"

section \<open>The pair index of the one-vs-one mode\<close>

lemma fold_snoc: "fold (\<lambda>x a. a @ [f x]) xs acc = acc @ map f xs"
  by (induction xs arbitrary: acc) auto

lemma fold_app: "fold (\<lambda>x a. a @ f x) xs acc = acc @ concat (map f xs)"
  by (induction xs arbitrary: acc) auto

lemma OvO_inner_eq: "OvO_inner k a acc = acc @ map (Pair a) [a + 1 ..< nat k]"
  by (simp add: OvO_inner_def fold_snoc)

lemma OvO_pairs_eq:
  "OvO_pairs k = concat (map (\<lambda>a. map (Pair a) [a + 1 ..< nat k]) [0 ..< nat (k - 1)])"
  by (simp add: OvO_pairs_def OvO_inner_eq fold_app)

lemma sum_down: "(\<Sum>a<n. n - Suc a) = (\<Sum>a<n. a)" for n :: nat
  using sum.nat_diff_reindex[of "\<lambda>i. i" n] by simp

lemma gauss: "2 * (\<Sum>a<n. a) = n * (n - 1)" for n :: nat
  by (induction n) (auto simp: algebra_simps)

lemma length_pairs_nat:
  "length (concat (map (\<lambda>a. map (Pair a) [a + 1 ..< n]) [0 ..< n - 1])) = n * (n - 1) div 2"
proof -
  have "length (concat (map (\<lambda>a. map (Pair a) [a + 1 ..< n]) [0 ..< n - 1]))
        = sum_list (map (\<lambda>a. n - Suc a) [0 ..< n - 1])"
    by (simp add: length_concat comp_def)
  also have "\<dots> = (\<Sum>a<n - 1. n - Suc a)"
    by (simp add: interv_sum_list_conv_sum_set_nat atLeast0LessThan)
  also have "\<dots> = (\<Sum>a<n. n - Suc a)"
    by (cases n) simp_all
  also have "\<dots> = (\<Sum>a<n. a)" by (rule sum_down)
  finally show ?thesis using gauss[of n] by simp
qed

lemma length_OvO_pairs: "length (OvO_pairs k) = nat k * (nat k - 1) div 2"
proof -
  have "nat (k - 1) = nat k - 1" by simp
  then have "OvO_pairs k = concat (map (\<lambda>a. map (Pair a) [a + 1 ..< nat k]) [0 ..< nat k - 1])"
    by (simp add: OvO_pairs_eq)
  then show ?thesis by (simp only: length_pairs_nat)
qed

lemma length_OvO_pairs_int: "0 \<le> k \<Longrightarrow> int (length (OvO_pairs k)) = k * (k - 1) div 2"
proof -
  assume k: "0 \<le> k"
  then obtain n where n: "k = int n" by (metis nat_0_le)
  have "int (n * (n - 1) div 2) = int n * (int n - 1) div 2"
    by (cases n) (simp_all add: zdiv_int algebra_simps)
  then show ?thesis by (simp add: length_OvO_pairs n)
qed

lemma OvO_pairs_lt: "(a, b) \<in> set (OvO_pairs k) \<Longrightarrow> a < b \<and> b < nat k"
  by (auto simp: OvO_pairs_eq)

text \<open>
  C8. For every \<open>nclasses \<ge> 2\<close>, the construction in the \<open>'OvO'\<close> mode succeeds and its
  pair index lists, for \<open>a\<close> from \<open>0\<close> to \<open>nclasses - 2\<close> and, for each \<open>a\<close>, for \<open>b\<close> from
  \<open>a + 1\<close> to \<open>nclasses - 1\<close>, the pair \<open>(a, b)\<close>, in that order; its length is
  \<open>nclasses * (nclasses - 1) / 2\<close>, and for \<open>nclasses = 3\<close> it is \<open>[(0,1), (0,2), (1,2)]\<close>.
\<close>

theorem OvO_pair_index:
  assumes "2 \<le> k"
  shows "\<exists>self. init ds ts tr_idx te_idx k kmtx kparam ''OvO'' = Inr self \<and>
           OvO_indices self =
             Some (concat (map (\<lambda>a. map (\<lambda>b. (a, b)) [a + 1 ..< nat k]) [0 ..< nat k - 1])) \<and>
           int (length (the (OvO_indices self))) = k * (k - 1) div 2 \<and>
           (k = 3 \<longrightarrow> OvO_indices self = Some [(0, 1), (0, 2), (1, 2)])"
proof -
  have three: "OvO_pairs 3 = [(0, 1), (0, 2), (1, 2)]"
    by (simp add: OvO_pairs_eq upt_rec)
  have "nat (k - 1) = nat k - 1" by simp
  then have "OvO_pairs k = concat (map (\<lambda>a. map (\<lambda>b. (a, b)) [a + 1 ..< nat k]) [0 ..< nat k - 1])"
    by (simp add: OvO_pairs_eq)
  with assms three show ?thesis
    using length_OvO_pairs_int[of k] by (auto simp: init_def Let_def)
qed

theorem OvO_pair_index_witness:
  "\<exists>self. init \<lparr>data = [], labels = [], dsize = 0\<rparr> \<lparr>data = [], labels = [], dsize = 0\<rparr>
             [] [] 3 [] 1 ''OvO'' = Inr self \<and>
          OvO_indices self = Some [(0, 1), (0, 2), (1, 2)] \<and>
          length (the (OvO_indices self)) = 3"
  using OvO_pair_index[of 3 "\<lparr>data = [], labels = [], dsize = 0\<rparr>"
      "\<lparr>data = [], labels = [], dsize = 0\<rparr>" "[]" "[]" "[]" 1]
  by auto

section \<open>What the construction checks\<close>

text \<open>
  C3 does not hold of \<open>__init__\<close>: with one class and an empty training set, and with a
  method that is neither \<open>'OvA'\<close> nor \<open>'OvO'\<close>, the construction succeeds.
\<close>

theorem init_invalid_configuration_counterexample:
  "init \<lparr>data = [], labels = [], dsize = 0\<rparr> \<lparr>data = [], labels = [], dsize = 0\<rparr>
        [] [] 1 [] 1 ''OvA''
     = Inr \<lparr>dataset = \<lparr>data = [], labels = [], dsize = 0\<rparr>,
            test_set = \<lparr>data = [], labels = [], dsize = 0\<rparr>,
            nclasses = 1, kernel_mtx = [], train_indices = [], test_indices = [],
            kernel_param = 1, classification_method = ''OvA'', classifier = Some [[]],
            OvO_indices = None, kernel_func = None\<rparr> \<and>
   init \<lparr>data = [[1]], labels = [0], dsize = 1\<rparr> \<lparr>data = [], labels = [], dsize = 0\<rparr>
        [0] [] 2 [[1]] 1 ''linear''
     = Inr \<lparr>dataset = \<lparr>data = [[1]], labels = [0], dsize = 1\<rparr>,
            test_set = \<lparr>data = [], labels = [], dsize = 0\<rparr>,
            nclasses = 2, kernel_mtx = [[1]], train_indices = [0], test_indices = [],
            kernel_param = 1, classification_method = ''linear'', classifier = None,
            OvO_indices = None, kernel_func = None\<rparr>"
  by (simp add: init_def zeros_def)

text \<open>
  C3, amended. \<open>__init__\<close> validates nothing. In the \<open>'OvA'\<close> mode it succeeds for every
  \<open>nclasses \<ge> 0\<close> and every training-set size (zero included) and allocates the
  \<open>nclasses \<times> n\<close> matrix of zeros; a negative \<open>nclasses\<close> is refused by \<open>np.zeros\<close>
  with a \<open>ValueError\<close>. In the \<open>'OvO'\<close> mode it succeeds for every \<open>nclasses\<close> and allocates
  the zero matrix of \<open>nclasses * (nclasses - 1) / 2\<close> rows and \<open>n\<close> columns. With any other
  method it succeeds and allocates no weight matrix.
\<close>

theorem init_validates_nothing:
  "(cmethod = ''OvA'' \<and> 0 \<le> k \<longrightarrow>
      (\<exists>self. init ds ts tr_idx te_idx k kmtx kparam cmethod = Inr self \<and>
         classifier self = Some (replicate (nat k) (replicate (dsize ds) 0)))) \<and>
   (cmethod = ''OvA'' \<and> k < 0 \<longrightarrow>
      init ds ts tr_idx te_idx k kmtx kparam cmethod = Inl ValueError) \<and>
   (cmethod = ''OvO'' \<longrightarrow>
      (\<exists>self. init ds ts tr_idx te_idx k kmtx kparam cmethod = Inr self \<and>
         classifier self =
           Some (replicate (nat (k * (k - 1) div 2)) (replicate (dsize ds) 0)))) \<and>
   (cmethod \<noteq> ''OvA'' \<and> cmethod \<noteq> ''OvO'' \<longrightarrow>
      (\<exists>self. init ds ts tr_idx te_idx k kmtx kparam cmethod = Inr self \<and>
         classifier self = None))"
  by (simp add: init_def zeros_def Let_def)

theorem init_validates_nothing_witness:
  "(\<exists>self. init \<lparr>data = [], labels = [], dsize = 0\<rparr> \<lparr>data = [], labels = [], dsize = 0\<rparr>
              [] [] 1 [] 1 ''OvA'' = Inr self \<and> classifier self = Some [[]]) \<and>
   init \<lparr>data = [], labels = [], dsize = 0\<rparr> \<lparr>data = [], labels = [], dsize = 0\<rparr>
        [] [] (- 1) [] 1 ''OvA'' = Inl ValueError \<and>
   (\<exists>self. init \<lparr>data = [[1]], labels = [0], dsize = 1\<rparr> \<lparr>data = [], labels = [], dsize = 0\<rparr>
              [0] [] 1 [[1]] 1 ''OvO'' = Inr self \<and> classifier self = Some []) \<and>
   (\<exists>self. init \<lparr>data = [[1]], labels = [0], dsize = 1\<rparr> \<lparr>data = [], labels = [], dsize = 0\<rparr>
              [0] [] 2 [[1]] 1 ''linear'' = Inr self \<and> classifier self = None)"
  using init_validates_nothing[of "''OvA''" 1 "\<lparr>data = [], labels = [], dsize = 0\<rparr>"
      "\<lparr>data = [], labels = [], dsize = 0\<rparr>" "[]" "[]" "[]" 1]
    init_validates_nothing[of "''OvA''" "- 1" "\<lparr>data = [], labels = [], dsize = 0\<rparr>"
      "\<lparr>data = [], labels = [], dsize = 0\<rparr>" "[]" "[]" "[]" 1]
    init_validates_nothing[of "''OvO''" 1 "\<lparr>data = [[1]], labels = [0], dsize = 1\<rparr>"
      "\<lparr>data = [], labels = [], dsize = 0\<rparr>" "[0]" "[]" "[[1]]" 1]
    init_validates_nothing[of "''linear''" 2 "\<lparr>data = [[1]], labels = [0], dsize = 1\<rparr>"
      "\<lparr>data = [], labels = [], dsize = 0\<rparr>" "[0]" "[]" "[[1]]" 1]
  by simp

section \<open>The argument of \<open>predict\<close>\<close>

text \<open>
  C10. For a fixed object, the result of \<open>predict\<close> is the same for any two arguments:
  the kernel block is looked up at the stored \<open>train_indices\<close> and \<open>test_indices\<close>, and
  the argument is not read.
\<close>

theorem predict_ignores_points: "predict self points1 = predict self points2"
  by (simp add: predict_def)

section \<open>The update rules of the training loop\<close>

lemma add_at_Inr:
  assumes "add_at W r c d = Inr W'"
  shows "W' = W[r := (W ! r)[c := W ! r ! c + d]]" "r < length W" "c < length (W ! r)"
  using assms by (auto simp: add_at_def split: if_splits)

lemma add_at_effect:
  assumes "add_at W r c d = Inr W'"
  shows "length W' = length W"
    and "length (W' ! r') = length (W ! r')"
    and "W' ! r ! c = W ! r ! c + d"
    and "r' \<noteq> r \<Longrightarrow> W' ! r' = W ! r'"
    and "c' \<noteq> c \<Longrightarrow> W' ! r' ! c' = W ! r' ! c'"
proof -
  note a = add_at_Inr[OF assms]
  show "length W' = length W" using a by simp
  show "length (W' ! r') = length (W ! r')" using a by (cases "r' = r") simp_all
  show "W' ! r ! c = W ! r ! c + d" using a by simp
  show "r' \<noteq> r \<Longrightarrow> W' ! r' = W ! r'" using a by simp
  show "c' \<noteq> c \<Longrightarrow> W' ! r' ! c' = W ! r' ! c'" using a by (cases "r' = r") simp_all
qed

lemma OvA_loop_effect:
  assumes "OvA_loop conf ls i cs (m, W) = Inr (m', W')" and "distinct cs"
  shows "length W' = length W \<and>
         (\<forall>c. length (W' ! c) = length (W ! c)) \<and>
         (\<forall>c. c \<notin> set cs \<longrightarrow> W' ! c = W ! c) \<and>
         (\<forall>c j. j \<noteq> i \<longrightarrow> W' ! c ! j = W ! c ! j) \<and>
         (\<forall>c\<in>set cs. c < length conf \<and> i < length ls \<and> W' ! c ! i = W ! c ! i + OvA_delta conf ls i c) \<and>
         m' = m + length (filter (\<lambda>c. OvA_delta conf ls i c \<noteq> 0) cs)"
  using assms
proof (induction cs arbitrary: m W)
  case Nil
  then show ?case by simp
next
  case (Cons c cs)
  from Cons.prems(1) have c: "c < length conf" and i: "i < length ls"
    by (auto split: if_splits)
  from Cons.prems(2) have d: "distinct cs" and notin: "c \<notin> set cs" by auto
  consider (fp) "conf ! c > 0 \<and> int c \<noteq> ls ! i"
    | (fn) "\<not> (conf ! c > 0 \<and> int c \<noteq> ls ! i)" "conf ! c \<le> 0 \<and> int c = ls ! i"
    | (no) "\<not> (conf ! c > 0 \<and> int c \<noteq> ls ! i)" "\<not> (conf ! c \<le> 0 \<and> int c = ls ! i)"
    by blast
  then show ?case
  proof cases
    case fp
    with Cons.prems(1) c i obtain W1 where
      W1: "add_at W c i (- 1) = Inr W1" and
      rec: "OvA_loop conf ls i cs (m + 1, W1) = Inr (m', W')"
      by (auto split: sum.splits)
    have delta: "OvA_delta conf ls i c = - 1" using fp by (simp add: OvA_delta_def)
    note IH = Cons.IH[OF rec d]
    note e = add_at_effect[OF W1]
    have same: "\<forall>ca\<in>set cs. W1 ! ca = W ! ca" using e(4) notin by metis
    show ?thesis using IH e notin c i delta same
      by auto
  next
    case fn
    with Cons.prems(1) c i obtain W1 where
      W1: "add_at W c i 1 = Inr W1" and
      rec: "OvA_loop conf ls i cs (m + 1, W1) = Inr (m', W')"
      by (auto split: sum.splits)
    have delta: "OvA_delta conf ls i c = 1" using fn by (simp add: OvA_delta_def)
    note IH = Cons.IH[OF rec d]
    note e = add_at_effect[OF W1]
    have same: "\<forall>ca\<in>set cs. W1 ! ca = W ! ca" using e(4) notin by metis
    show ?thesis using IH e notin c i delta same
      by auto
  next
    case no
    with Cons.prems(1) c i have
      rec: "OvA_loop conf ls i cs (m, W) = Inr (m', W')"
      by (auto split: sum.splits)
    have delta: "OvA_delta conf ls i c = 0" using no by (simp add: OvA_delta_def)
    note IH = Cons.IH[OF rec d]
    show ?thesis using IH notin c i delta
      by auto
  qed
qed


lemma OvO_first_effect:
  assumes "OvO_first conf ls i p a (m, W) = Inr (m1, W1)"
  shows "i < length ls \<and> length W1 = length W \<and>
         (\<forall>r. length (W1 ! r) = length (W ! r)) \<and>
         (\<forall>r. r \<noteq> p \<longrightarrow> W1 ! r = W ! r) \<and>
         (\<forall>r j. j \<noteq> i \<longrightarrow> W1 ! r ! j = W ! r ! j) \<and>
         W1 ! p ! i = W ! p ! i + (if int a = ls ! i \<and> conf ! p \<le> 0 then 1 else 0) \<and>
         m1 = m + (if int a = ls ! i \<and> conf ! p \<le> 0 then 1 else 0) \<and>
         (\<not> (int a = ls ! i \<and> conf ! p \<le> 0) \<longrightarrow> W1 = W)"
proof (cases "int a = ls ! i \<and> conf ! p \<le> 0")
  case True
  with assms obtain Wx where a: "add_at W p i 1 = Inr Wx" and eq: "m1 = m + 1" "W1 = Wx"
    and i: "i < length ls"
    by (auto simp: OvO_first_def split: if_splits sum.splits)
  note e = add_at_effect[OF a]
  show ?thesis using True e eq i by auto
next
  case False
  with assms show ?thesis by (auto simp: OvO_first_def split: if_splits sum.splits)
qed

lemma OvO_second_effect:
  assumes "OvO_second conf ls i p b (m, W) = Inr (m1, W1)"
  shows "i < length ls \<and> length W1 = length W \<and>
         (\<forall>r. length (W1 ! r) = length (W ! r)) \<and>
         (\<forall>r. r \<noteq> p \<longrightarrow> W1 ! r = W ! r) \<and>
         (\<forall>r j. j \<noteq> i \<longrightarrow> W1 ! r ! j = W ! r ! j) \<and>
         W1 ! p ! i = W ! p ! i + (if int b = ls ! i \<and> conf ! p > 0 then - 1 else 0) \<and>
         m1 = m + (if int b = ls ! i \<and> conf ! p > 0 then 1 else 0) \<and>
         (\<not> (int b = ls ! i \<and> conf ! p > 0) \<longrightarrow> W1 = W)"
proof (cases "int b = ls ! i \<and> conf ! p > 0")
  case True
  with assms obtain Wx where a: "add_at W p i (- 1) = Inr Wx" and eq: "m1 = m + 1" "W1 = Wx"
    and i: "i < length ls"
    by (auto simp: OvO_second_def split: if_splits sum.splits)
  note e = add_at_effect[OF a]
  show ?thesis using True e eq i by auto
next
  case False
  with assms show ?thesis by (auto simp: OvO_second_def split: if_splits sum.splits)
qed

lemma OvO_pair_effect:
  assumes 1: "OvO_first conf ls i p a (m, W) = Inr (m1, W1)"
      and 2: "OvO_second conf ls i p b (m1, W1) = Inr (m2, W2)"
  shows "i < length ls \<and> length W2 = length W \<and>
         (\<forall>r. length (W2 ! r) = length (W ! r)) \<and>
         (\<forall>r. r \<noteq> p \<longrightarrow> W2 ! r = W ! r) \<and>
         (\<forall>r j. j \<noteq> i \<longrightarrow> W2 ! r ! j = W ! r ! j) \<and>
         W2 ! p ! i = W ! p ! i + OvO_delta conf ls i p a b \<and>
         m2 = m + OvO_hits conf ls i p a b \<and>
         (OvO_hits conf ls i p a b = 0 \<longrightarrow> W2 = W)"
  using OvO_first_effect[OF 1] OvO_second_effect[OF 2]
  by (simp add: OvO_delta_def OvO_hits_def)

lemma OvO_loop_effect:
  assumes "OvO_loop conf ls i tr (m, W) = Inr (m', W')" and "distinct (map fst tr)"
  shows "length W' = length W \<and>
         (\<forall>r. length (W' ! r) = length (W ! r)) \<and>
         (\<forall>r. r \<notin> fst ` set tr \<longrightarrow> W' ! r = W ! r) \<and>
         (\<forall>r j. j \<noteq> i \<longrightarrow> W' ! r ! j = W ! r ! j) \<and>
         (\<forall>p a b. (p, a, b) \<in> set tr \<longrightarrow>
            i < length ls \<and> W' ! p ! i = W ! p ! i + OvO_delta conf ls i p a b) \<and>
         m' = m + sum_list (map (\<lambda>(p, a, b). OvO_hits conf ls i p a b) tr)"
  using assms
proof (induction tr arbitrary: m W)
  case Nil
  then show ?case by simp
next
  case (Cons t tr)
  obtain p a b where t: "t = (p, a, b)" by (cases t) auto
  from Cons.prems(1) t obtain m1 W1 m2 W2 where
    1: "OvO_first conf ls i p a (m, W) = Inr (m1, W1)" and
    2: "OvO_second conf ls i p b (m1, W1) = Inr (m2, W2)" and
    rec: "OvO_loop conf ls i tr (m2, W2) = Inr (m', W')"
    by (auto split: sum.splits)
  from Cons.prems(2) t have d: "distinct (map fst tr)" and notin: "p \<notin> fst ` set tr" by auto
  note IH = Cons.IH[OF rec d]
  note e = OvO_pair_effect[OF 1 2]
  have same: "W2 ! q = W ! q" if "(q, x, y) \<in> set tr" for q x y
  proof -
    from that have "q \<in> fst ` set tr" by force
    with notin have "q \<noteq> p" by auto
    with e show ?thesis by simp
  qed
  have other: "\<forall>r. r \<notin> fst ` set (t # tr) \<longrightarrow> W' ! r = W ! r" 
    using IH e t by auto
  have cols: "\<forall>r j. j \<noteq> i \<longrightarrow> W' ! r ! j = W ! r ! j" using IH e by auto
  have hd: "W' ! p ! i = W ! p ! i + OvO_delta conf ls i p a b" using IH e notin by auto
  have tl: "W' ! q ! i = W ! q ! i + OvO_delta conf ls i q x y" if "(q, x, y) \<in> set tr" for q x y
    using IH same[OF that] that by auto
  have cnt: "m' = m + sum_list (map (\<lambda>(p, a, b). OvO_hits conf ls i p a b) (t # tr))"
    using IH e t by simp
  have len: "length W' = length W" "\<forall>r. length (W' ! r) = length (W ! r)" using IH e by auto
  have i: "i < length ls" using e by simp
  show ?case using len other cols hd tl cnt i t by auto
qed


lemma sum_list_indicator:
  "sum_list (map (\<lambda>x. if P x then 1 else 0) xs) = length (filter P xs)"
  by (induction xs) auto

lemma OvO_hits_indicator:
  "OvO_hits conf ls i p a b =
     (if (int a = ls ! i \<and> conf ! p \<le> 0) \<or> (int b = ls ! i \<and> conf ! p > 0) then 1 else 0)"
  by (auto simp: OvO_hits_def)

text \<open>
  C5. In the \<open>'OvA'\<close> mode, processing a training example changes, for each class \<open>c\<close>
  below \<open>nclasses\<close>: when \<open>confidence[c] > 0\<close> and \<open>c\<close> is not the label, the weight at
  \<open>(c, data_idx)\<close> goes down by one; when \<open>confidence[c] \<le> 0\<close> and \<open>c\<close> is the label, it
  goes up by one; otherwise row \<open>c\<close> is unchanged. No other column changes, and the mistake
  counter grows by the number of classes for which one of the two cases holds.
\<close>

theorem OvA_update_rule:
  assumes "classification_method self = ''OvA''"
    and "classifier self = Some W"
    and "train_example self K data_idx mistakes = Inr (mistakes', self')"
  shows "\<exists>W'. self' = self\<lparr>classifier := Some W'\<rparr> \<and>
     (let confidence = map (\<lambda>row. dot row (K ! data_idx)) W;
          y = labels (dataset self) ! data_idx
      in (\<forall>c < nat (nclasses self).
            (confidence ! c > 0 \<and> int c \<noteq> y \<longrightarrow> W' ! c ! data_idx = W ! c ! data_idx - 1) \<and>
            (confidence ! c \<le> 0 \<and> int c = y \<longrightarrow> W' ! c ! data_idx = W ! c ! data_idx + 1) \<and>
            (\<not> (confidence ! c > 0 \<and> int c \<noteq> y) \<and> \<not> (confidence ! c \<le> 0 \<and> int c = y) \<longrightarrow>
               W' ! c = W ! c) \<and>
            (\<forall>j. j \<noteq> data_idx \<longrightarrow> W' ! c ! j = W ! c ! j)) \<and>
         mistakes' = mistakes + length (filter
           (\<lambda>c. (confidence ! c > 0 \<and> int c \<noteq> y) \<or> (confidence ! c \<le> 0 \<and> int c = y))
           [0 ..< nat (nclasses self)]))"
proof -
  define conf where "conf = map (\<lambda>row. dot row (K ! data_idx)) W"
  define ls where "ls = labels (dataset self)"
  from assms obtain W' where
    loop: "OvA_loop conf ls data_idx [0 ..< nat (nclasses self)] (mistakes, W) = Inr (mistakes', W')"
    and self': "self' = self\<lparr>classifier := Some W'\<rparr>"
    by (auto simp: train_example_def conf_def ls_def Let_def split: if_splits sum.splits)
  note e = OvA_loop_effect[OF loop distinct_upt]
  have rows: "W' ! c = W ! c" if "c < nat (nclasses self)" "OvA_delta conf ls data_idx c = 0" for c
  proof (rule nth_equalityI)
    show "length (W' ! c) = length (W ! c)" using e by simp
    fix j assume "j < length (W' ! c)"
    show "W' ! c ! j = W ! c ! j"
      using e that by (cases "j = data_idx") auto
  qed
  have filt: "(\<lambda>c. OvA_delta conf ls data_idx c \<noteq> 0) =
     (\<lambda>c. (conf ! c > 0 \<and> int c \<noteq> ls ! data_idx) \<or> (conf ! c \<le> 0 \<and> int c = ls ! data_idx))"
    by (auto simp: OvA_delta_def fun_eq_iff)
  have "\<forall>c < nat (nclasses self).
            (conf ! c > 0 \<and> int c \<noteq> ls ! data_idx \<longrightarrow> W' ! c ! data_idx = W ! c ! data_idx - 1) \<and>
            (conf ! c \<le> 0 \<and> int c = ls ! data_idx \<longrightarrow> W' ! c ! data_idx = W ! c ! data_idx + 1) \<and>
            (\<not> (conf ! c > 0 \<and> int c \<noteq> ls ! data_idx) \<and> \<not> (conf ! c \<le> 0 \<and> int c = ls ! data_idx) \<longrightarrow>
               W' ! c = W ! c) \<and>
            (\<forall>j. j \<noteq> data_idx \<longrightarrow> W' ! c ! j = W ! c ! j)"
  proof (intro allI impI)
    fix c assume c: "c < nat (nclasses self)"
    then have "c \<in> set [0 ..< nat (nclasses self)]" by simp
    with e have v: "W' ! c ! data_idx = W ! c ! data_idx + OvA_delta conf ls data_idx c" by blast
    show "(conf ! c > 0 \<and> int c \<noteq> ls ! data_idx \<longrightarrow> W' ! c ! data_idx = W ! c ! data_idx - 1) \<and>
            (conf ! c \<le> 0 \<and> int c = ls ! data_idx \<longrightarrow> W' ! c ! data_idx = W ! c ! data_idx + 1) \<and>
            (\<not> (conf ! c > 0 \<and> int c \<noteq> ls ! data_idx) \<and> \<not> (conf ! c \<le> 0 \<and> int c = ls ! data_idx) \<longrightarrow>
               W' ! c = W ! c) \<and>
            (\<forall>j. j \<noteq> data_idx \<longrightarrow> W' ! c ! j = W ! c ! j)"
      using v rows[OF c] e by (auto simp: OvA_delta_def)
  qed
  moreover have "mistakes' = mistakes + length (filter
           (\<lambda>c. (conf ! c > 0 \<and> int c \<noteq> ls ! data_idx) \<or> (conf ! c \<le> 0 \<and> int c = ls ! data_idx))
           [0 ..< nat (nclasses self)])"
    using e filt by simp
  ultimately show ?thesis using self' by (auto simp: conf_def ls_def Let_def)
qed

lemma ex_OvA_step:
  "train_example ex_OvA [[1]] 0 0 = Inr (2, ex_OvA\<lparr>classifier := Some [[1], [0]]\<rparr>)"
  by (simp add: train_example_def ex_OvA_def dot_def add_at_def upt_rec)

lemma ex_two_quiet_step:
  "train_example (ex_two\<lparr>classifier := Some [[1, 0], [0, 0]]\<rparr>) [[1, 1], [1, 1]] 1 1 =
     Inr (1, ex_two\<lparr>classifier := Some [[1, 0], [0, 0]]\<rparr>)"
  by code_simp

theorem OvA_update_rule_witness:
  "classification_method ex_OvA = ''OvA'' \<and> classifier ex_OvA = Some [[0], [1]] \<and>
   train_example ex_OvA [[1]] 0 0 = Inr (2, ex_OvA\<lparr>classifier := Some [[1], [0]]\<rparr>) \<and>
   (\<exists>W'. ex_OvA\<lparr>classifier := Some [[1], [0]]\<rparr> = ex_OvA\<lparr>classifier := Some W'\<rparr> \<and>
      W' ! 0 ! 0 = 0 + 1 \<and> W' ! 1 ! 0 = 1 - 1) \<and>
   train_example (ex_two\<lparr>classifier := Some [[1, 0], [0, 0]]\<rparr>) [[1, 1], [1, 1]] 1 1 =
     Inr (1, ex_two\<lparr>classifier := Some [[1, 0], [0, 0]]\<rparr>) \<and>
   (\<exists>W'. ex_two\<lparr>classifier := Some [[1, 0], [0, 0]]\<rparr> = ex_two\<lparr>classifier := Some W'\<rparr> \<and>
      W' ! 0 = [1, 0] \<and> W' ! 1 = [0, 0])"
proof -
  have 1: "classification_method ex_OvA = ''OvA''" and 2: "classifier ex_OvA = Some [[0], [1]]"
    by (simp_all add: ex_OvA_def)
  from OvA_update_rule[OF 1 2 ex_OvA_step]
  obtain W' where a: "ex_OvA\<lparr>classifier := Some [[1], [0]]\<rparr> = ex_OvA\<lparr>classifier := Some W'\<rparr>"
    and b: "\<forall>c<2. ((map (\<lambda>row. dot row ([[1]] ! 0)) [[0], [1]]) ! c > 0 \<and>
                 int c \<noteq> labels (dataset ex_OvA) ! 0 \<longrightarrow> W' ! c ! 0 = [[0], [1]] ! c ! 0 - 1) \<and>
       ((map (\<lambda>row. dot row ([[1]] ! 0)) [[0], [1]]) ! c \<le> 0 \<and>
                 int c = labels (dataset ex_OvA) ! 0 \<longrightarrow> W' ! c ! 0 = [[0], [1]] ! c ! 0 + 1)"
    by (auto simp: Let_def ex_OvA_def)
  from b[rule_format, of 0] have "W' ! 0 ! 0 = 0 + 1" by (simp add: dot_def ex_OvA_def)
  moreover from b[rule_format, of 1] have "W' ! 1 ! 0 = 1 - 1" by (simp add: dot_def ex_OvA_def)
  ultimately have first: "\<exists>W'. ex_OvA\<lparr>classifier := Some [[1], [0]]\<rparr> = ex_OvA\<lparr>classifier := Some W'\<rparr> \<and>
      W' ! 0 ! 0 = 0 + 1 \<and> W' ! 1 ! 0 = 1 - 1"
    using a by blast
  let ?s = "ex_two\<lparr>classifier := Some [[1, 0], [0, 0]]\<rparr>"
  have 3: "classification_method ?s = ''OvA''" and 4: "classifier ?s = Some [[1, 0], [0, 0]]"
    by (simp_all add: ex_two_def)
  from OvA_update_rule[OF 3 4 ex_two_quiet_step]
  obtain V' where c: "?s = ?s\<lparr>classifier := Some V'\<rparr>"
    and d: "\<forall>c<2.
      (\<not> ((map (\<lambda>row. dot row ([[1, 1], [1, 1]] ! 1)) [[1, 0], [0, 0]]) ! c > 0 \<and>
           int c \<noteq> labels (dataset ?s) ! 1) \<and>
       \<not> ((map (\<lambda>row. dot row ([[1, 1], [1, 1]] ! 1)) [[1, 0], [0, 0]]) ! c \<le> 0 \<and>
           int c = labels (dataset ?s) ! 1) \<longrightarrow>
       V' ! c = [[1, 0], [0, 0]] ! c)"
    by (auto simp: Let_def ex_two_def)
  from d[rule_format, of 0] have "V' ! 0 = [1, 0]" by (simp add: dot_def ex_two_def)
  moreover from d[rule_format, of 1] have "V' ! 1 = [0, 0]" by (simp add: dot_def ex_two_def)
  moreover from c have "?s = ex_two\<lparr>classifier := Some V'\<rparr>" by simp
  ultimately have second: "\<exists>W'. ?s = ex_two\<lparr>classifier := Some W'\<rparr> \<and>
      W' ! 0 = [1, 0] \<and> W' ! 1 = [0, 0]"
    by blast
  from 1 2 ex_OvA_step first ex_two_quiet_step second show ?thesis by blast
qed

text \<open>
  C6. In the \<open>'OvO'\<close> mode, processing a training example changes, for each pair \<open>(a, b)\<close> at
  row \<open>p\<close>: when the label is \<open>a\<close> and \<open>confidence[p] \<le> 0\<close>, the weight at \<open>(p, data_idx)\<close>
  goes up by one; when the label is \<open>b\<close> and \<open>confidence[p] > 0\<close>, it goes down by one; when
  the label is neither \<open>a\<close> nor \<open>b\<close> (and whenever neither case holds), row \<open>p\<close> is
  unchanged. No other column changes, and the mistake counter grows by the number of pairs
  for which one of the two cases holds.
\<close>

theorem OvO_update_rule:
  assumes "classification_method self = ''OvO''"
    and "classifier self = Some W"
    and "OvO_indices self = Some ps"
    and "train_example self K data_idx mistakes = Inr (mistakes', self')"
  shows "\<exists>W'. self' = self\<lparr>classifier := Some W'\<rparr> \<and>
     (let confidence = map (\<lambda>row. dot row (K ! data_idx)) W;
          y = labels (dataset self) ! data_idx
      in (\<forall>p < length ps. \<forall>a b. ps ! p = (a, b) \<longrightarrow>
            (int a = y \<and> confidence ! p \<le> 0 \<longrightarrow> W' ! p ! data_idx = W ! p ! data_idx + 1) \<and>
            (int b = y \<and> confidence ! p > 0 \<longrightarrow> W' ! p ! data_idx = W ! p ! data_idx - 1) \<and>
            (int a \<noteq> y \<and> int b \<noteq> y \<longrightarrow> W' ! p = W ! p) \<and>
            (\<not> (int a = y \<and> confidence ! p \<le> 0) \<and> \<not> (int b = y \<and> confidence ! p > 0) \<longrightarrow>
               W' ! p = W ! p) \<and>
            (\<forall>j. j \<noteq> data_idx \<longrightarrow> W' ! p ! j = W ! p ! j)) \<and>
         mistakes' = mistakes + length (filter
           (\<lambda>(p, a, b). (int a = y \<and> confidence ! p \<le> 0) \<or> (int b = y \<and> confidence ! p > 0))
           (enumerate 0 ps)))"
proof -
  define conf where "conf = map (\<lambda>row. dot row (K ! data_idx)) W"
  define ls where "ls = labels (dataset self)"
  from assms obtain W' where
    loop: "OvO_loop conf ls data_idx (enumerate 0 ps) (mistakes, W) = Inr (mistakes', W')"
    and self': "self' = self\<lparr>classifier := Some W'\<rparr>"
    by (auto simp: train_example_def conf_def ls_def Let_def split: if_splits sum.splits)
  have "distinct (map fst (enumerate 0 ps))" by simp
  note e = OvO_loop_effect[OF loop this]
  have step: "(int a = ls ! data_idx \<and> conf ! p \<le> 0 \<longrightarrow> W' ! p ! data_idx = W ! p ! data_idx + 1) \<and>
            (int b = ls ! data_idx \<and> conf ! p > 0 \<longrightarrow> W' ! p ! data_idx = W ! p ! data_idx - 1) \<and>
            (int a \<noteq> ls ! data_idx \<and> int b \<noteq> ls ! data_idx \<longrightarrow> W' ! p = W ! p) \<and>
            (\<not> (int a = ls ! data_idx \<and> conf ! p \<le> 0) \<and> \<not> (int b = ls ! data_idx \<and> conf ! p > 0) \<longrightarrow>
               W' ! p = W ! p) \<and>
            (\<forall>j. j \<noteq> data_idx \<longrightarrow> W' ! p ! j = W ! p ! j)"
    if p: "p < length ps" and ab: "ps ! p = (a, b)" for p a b
  proof -
    from p ab have "(p, a, b) \<in> set (enumerate 0 ps)" by (simp add: in_set_enumerate_eq)
    with e have v: "W' ! p ! data_idx = W ! p ! data_idx + OvO_delta conf ls data_idx p a b"
      by blast
    have row: "W' ! p = W ! p" if "OvO_delta conf ls data_idx p a b = 0"
    proof (rule nth_equalityI)
      show "length (W' ! p) = length (W ! p)" using e by simp
      fix j assume "j < length (W' ! p)"
      show "W' ! p ! j = W ! p ! j" using e v that by (cases "j = data_idx") auto
    qed
    show ?thesis using v row e by (auto simp: OvO_delta_def)
  qed
  have "(\<lambda>(p, a, b). OvO_hits conf ls data_idx p a b) =
        (\<lambda>x. if (case x of (p, a, b) \<Rightarrow> (int a = ls ! data_idx \<and> conf ! p \<le> 0) \<or>
                      (int b = ls ! data_idx \<and> conf ! p > 0)) then 1 else 0)"
    by (auto simp: fun_eq_iff OvO_hits_indicator)
  then have cnt: "mistakes' = mistakes + length (filter
           (\<lambda>(p, a, b). (int a = ls ! data_idx \<and> conf ! p \<le> 0) \<or> (int b = ls ! data_idx \<and> conf ! p > 0))
           (enumerate 0 ps))"
    using e by (simp only: sum_list_indicator)
  show ?thesis using self' step cnt unfolding conf_def ls_def Let_def by blast
qed

lemma ex_OvO_step:
  "train_example ex_OvO [[1]] 0 0 = Inr (2, ex_OvO\<lparr>classifier := Some [[0], [0], [1]]\<rparr>)"
  by (simp add: train_example_def ex_OvO_def dot_def add_at_def OvO_first_def OvO_second_def
      enumerate_eq_zip upt_rec)

theorem OvO_update_rule_witness:
  "classification_method ex_OvO = ''OvO'' \<and> classifier ex_OvO = Some [[1], [0], [0]] \<and>
   OvO_indices ex_OvO = Some [(0, 1), (0, 2), (1, 2)] \<and>
   train_example ex_OvO [[1]] 0 0 = Inr (2, ex_OvO\<lparr>classifier := Some [[0], [0], [1]]\<rparr>) \<and>
   (\<exists>W'. ex_OvO\<lparr>classifier := Some [[0], [0], [1]]\<rparr> = ex_OvO\<lparr>classifier := Some W'\<rparr> \<and>
      W' ! 0 ! 0 = 1 - 1 \<and> W' ! 1 = [0] \<and> W' ! 2 ! 0 = 0 + 1)"
proof -
  have 1: "classification_method ex_OvO = ''OvO''"
    and 2: "classifier ex_OvO = Some [[1], [0], [0]]"
    and 3: "OvO_indices ex_OvO = Some [(0, 1), (0, 2), (1, 2)]"
    by (simp_all add: ex_OvO_def)
  from OvO_update_rule[OF 1 2 3 ex_OvO_step]
  obtain W' where a: "ex_OvO\<lparr>classifier := Some [[0], [0], [1]]\<rparr> = ex_OvO\<lparr>classifier := Some W'\<rparr>"
    and b: "\<forall>p<3. \<forall>a b. [(0, 1), (0, 2), (1, 2)] ! p = (a, b) \<longrightarrow>
            (int a = labels (dataset ex_OvO) ! 0 \<and> map (\<lambda>row. dot row ([[1]] ! 0)) [[1], [0], [0]] ! p \<le> 0 \<longrightarrow>
                W' ! p ! 0 = [[1], [0], [0]] ! p ! 0 + 1) \<and>
            (int b = labels (dataset ex_OvO) ! 0 \<and> map (\<lambda>row. dot row ([[1]] ! 0)) [[1], [0], [0]] ! p > 0 \<longrightarrow>
                W' ! p ! 0 = [[1], [0], [0]] ! p ! 0 - 1) \<and>
            (int a \<noteq> labels (dataset ex_OvO) ! 0 \<and> int b \<noteq> labels (dataset ex_OvO) ! 0 \<longrightarrow>
                W' ! p = [[1], [0], [0]] ! p)"
    by (auto simp: Let_def)
  from b[rule_format, of 0 0 1] have "W' ! 0 ! 0 = 1 - 1" by (simp add: dot_def ex_OvO_def)
  moreover from b[rule_format, of 1 0 2] have "W' ! 1 = [0]" by (simp add: dot_def ex_OvO_def)
  moreover from b[rule_format, of 2 1 2] have "W' ! 2 ! 0 = 0 + 1" by (simp add: dot_def ex_OvO_def)
  ultimately show ?thesis using 1 2 3 ex_OvO_step a by blast
qed

section \<open>Prediction returns one label per stored test index\<close>

lemma sequence_e_Inr:
  "sequence_e xs = Inr ys \<Longrightarrow> length ys = length xs \<and> (\<forall>i<length xs. xs ! i = Inr (ys ! i))"
proof (induction xs arbitrary: ys)
  case Nil
  then show ?case by simp
next
  case (Cons x xs)
  then obtain v vs where x: "x = Inr v" and vs: "sequence_e xs = Inr vs" and ys: "ys = v # vs"
    by (auto split: sum.splits)
  from Cons.IH[OF vs] x ys show ?case by (auto simp: nth_Cons')
qed

lemma sequence_e_total:
  "(\<forall>x\<in>set xs. \<exists>v. x = Inr v) \<Longrightarrow> \<exists>ys. sequence_e xs = Inr ys"
  by (induction xs) auto

lemma argmax_aux_bound:
  "best < i \<Longrightarrow> argmax_aux xs i best v < i + length xs"
proof (induction xs arbitrary: i best v)
  case Nil
  then show ?case by simp
next
  case (Cons x xs)
  have "argmax_aux xs (Suc i) i x < Suc i + length xs" by (rule Cons.IH) simp
  moreover have "argmax_aux xs (Suc i) best v < Suc i + length xs"
    by (rule Cons.IH) (use Cons.prems in simp)
  ultimately show ?case by simp
qed

lemma argmax_less: "xs \<noteq> [] \<Longrightarrow> argmax xs < length xs"
  using argmax_aux_bound[of 0 1] by (cases xs) auto

lemma vote_loop_length: "vote_loop conf tr tally = Inr t \<Longrightarrow> length t = length tally"
  by (induction conf tr tally rule: vote_loop.induct) (auto split: if_splits)

lemma vote_loop_total:
  "(\<forall>(p, a, b)\<in>set tr. p < length conf \<and> a < length tally \<and> b < length tally) \<Longrightarrow>
   \<exists>t. vote_loop conf tr tally = Inr t"
  by (induction conf tr tally rule: vote_loop.induct) auto

lemma OvO_decide_less: "OvO_decide self col = Inr d \<Longrightarrow> int d < nclasses self"
proof -
  assume a: "OvO_decide self col = Inr d"
  then obtain ps tally where k: "0 \<le> nclasses self"
    and v: "vote_loop col (enumerate 0 ps) (replicate (nat (nclasses self)) 0) = Inr tally"
    and ne: "tally \<noteq> []" and d: "d = argmax tally"
    by (auto simp: OvO_decide_def split: if_splits option.splits sum.splits)
  from vote_loop_length[OF v] have "length tally = nat (nclasses self)" by simp
  with argmax_less[OF ne] d k show ?thesis by simp
qed

lemma kernel_block_total:
  assumes "\<forall>i\<in>set rs. i < length M \<and> (\<forall>j\<in>set cs. j < length (M ! i))"
  shows "\<exists>K. kernel_block M rs cs = Inr K"
proof -
  have "\<exists>r. sequence_e (map (lookup M i) cs) = Inr r" if "i \<in> set rs" for i
    using that assms by (intro sequence_e_total) (auto simp: lookup_def)
  then show ?thesis unfolding kernel_block_def
    by (intro sequence_e_total) auto
qed

lemma kernel_block_shape:
  assumes "kernel_block M rs cs = Inr K"
  shows "length K = length rs" and "\<forall>row\<in>set K. length row = length cs"
proof -
  note s = sequence_e_Inr[OF assms[unfolded kernel_block_def]]
  show "length K = length rs" using s by simp
  show "\<forall>row\<in>set K. length row = length cs"
  proof
    fix row assume "row \<in> set K"
    then obtain i where i: "i < length K" "row = K ! i" by (auto simp: in_set_conv_nth)
    with s have "sequence_e (map (lookup M (rs ! i)) cs) = Inr row" by simp
    from sequence_e_Inr[OF this] show "length row = length cs" by simp
  qed
qed


lemma OvO_pairs_bound: "(a, b) \<in> set (OvO_pairs k) \<Longrightarrow> a < nat k \<and> b < nat k"
  using OvO_pairs_lt[of a b k] by simp

lemma allocatedD:
  assumes "allocated self"
  shows "\<exists>W. classifier self = Some W \<and>
     (\<forall>row\<in>set W. length row = dsize (dataset self)) \<and>
     (classification_method self = ''OvA'' \<longrightarrow> length W = nat (nclasses self)) \<and>
     (classification_method self \<noteq> ''OvA'' \<longrightarrow>
        classification_method self = ''OvO'' \<and>
        OvO_indices self = Some (OvO_pairs (nclasses self)) \<and>
        int (length W) = nclasses self * (nclasses self - 1) div 2)"
  using assms by (auto simp: allocated_def list_all_iff split: option.splits if_splits)

lemma predict_state: "predict self points = Inr (r, self') \<Longrightarrow> self' = self"
  by (auto simp: predict_def Let_def split: sum.splits option.splits if_splits)

lemma predict_labels:
  assumes al: "allocated self" and p: "predict self points = Inr (r, self')"
  shows "\<exists>ds. r = Some ds \<and> length ds = length (test_indices self) \<and>
           (\<forall>d\<in>set ds. int d < nclasses self)"
proof -
  from al obtain W where W: "classifier self = Some W"
    and ova: "classification_method self = ''OvA'' \<Longrightarrow> length W = nat (nclasses self)"
    and ovo: "classification_method self \<noteq> ''OvA'' \<Longrightarrow> classification_method self = ''OvO''"
    using allocatedD by blast
  from p W obtain K where K: "kernel_block (kernel_mtx self) (train_indices self) (test_indices self) = Inr K"
    by (auto simp: predict_def split: sum.splits)
  define m where "m = length (test_indices self)"
  define conf where "conf = np_dot_mm W K m"
  show ?thesis
  proof (cases "classification_method self = ''OvA''")
    case True
    with p W K have ne: "conf \<noteq> []"
      and r: "r = Some (map (\<lambda>j. argmax (column j conf)) [0 ..< m])"
      by (auto simp: predict_def Let_def conf_def m_def split: if_splits)
    have "int (argmax (column j conf)) < nclasses self" for j
    proof -
      have "column j conf \<noteq> []" using ne by (simp add: column_def)
      from argmax_less[OF this] have "argmax (column j conf) < length W"
        by (simp add: column_def conf_def np_dot_mm_def)
      with ova[OF True] show ?thesis by simp
    qed
    with r show ?thesis by (auto simp: m_def)
  next
    case False
    then have O: "classification_method self = ''OvO''" by (rule ovo)
    with False p W K obtain ds where
      s: "sequence_e (map (\<lambda>this_dat. OvO_decide self (column this_dat conf)) [0 ..< m]) = Inr ds"
      and r: "r = Some ds"
      by (auto simp: predict_def Let_def conf_def m_def split: if_splits sum.splits)
    note e = sequence_e_Inr[OF s]
    have "int d < nclasses self" if "d \<in> set ds" for d
    proof -
      from that obtain i where i: "i < length ds" "d = ds ! i" by (auto simp: in_set_conv_nth)
      with e have "OvO_decide self (column i conf) = Inr d" by simp
      then show ?thesis by (rule OvO_decide_less)
    qed
    with r e show ?thesis by (auto simp: m_def)
  qed
qed

lemma predict_total:
  assumes al: "allocated self" and k: "1 \<le> nclasses self"
    and sz: "dsize (dataset self) = length (train_indices self)"
    and idx: "indices_in_range self"
  shows "\<exists>ds. predict self points = Inr (Some ds, self)"
proof -
  from al obtain W where W: "classifier self = Some W"
    and ova: "classification_method self = ''OvA'' \<Longrightarrow> length W = nat (nclasses self)"
    and ovo: "classification_method self \<noteq> ''OvA'' \<Longrightarrow> classification_method self = ''OvO''"
    and pairs: "classification_method self \<noteq> ''OvA'' \<Longrightarrow>
           OvO_indices self = Some (OvO_pairs (nclasses self))"
    and rows: "classification_method self \<noteq> ''OvA'' \<Longrightarrow>
           int (length W) = nclasses self * (nclasses self - 1) div 2"
    using allocatedD by blast
  from idx have "\<forall>i\<in>set (train_indices self). i < length (kernel_mtx self) \<and>
      (\<forall>j\<in>set (test_indices self). j < length (kernel_mtx self ! i))"
    by (auto simp: indices_in_range_def list_all_iff)
  from kernel_block_total[OF this] obtain K where
    K: "kernel_block (kernel_mtx self) (train_indices self) (test_indices self) = Inr K" ..
  define m where "m = length (test_indices self)"
  define conf where "conf = np_dot_mm W K m"
  have lconf: "length conf = length W" by (simp add: conf_def np_dot_mm_def)
  show ?thesis
  proof (cases "classification_method self = ''OvA''")
    case True
    with ova k have "conf \<noteq> []" using lconf by auto
    with True W K sz show ?thesis
      by (simp add: predict_def Let_def conf_def m_def)
  next
    case False
    then have O: "classification_method self = ''OvO''" by (rule ovo)
    from k have k0: "0 \<le> nclasses self" by simp
    have lW: "length W = length (OvO_pairs (nclasses self))"
      using rows[OF False] length_OvO_pairs_int[OF k0] by simp
    have "\<exists>d. OvO_decide self (column j conf) = Inr d" for j
    proof -
      have "\<forall>(p, a, b)\<in>set (enumerate 0 (OvO_pairs (nclasses self))).
              p < length (column j conf) \<and>
              a < length (replicate (nat (nclasses self)) (0::nat)) \<and>
              b < length (replicate (nat (nclasses self)) (0::nat))"
        using lW lconf OvO_pairs_bound[of _ _ "nclasses self"]
        by (auto simp: in_set_enumerate_eq column_def dest!: nth_mem) 
      from vote_loop_total[OF this] obtain t where
        t: "vote_loop (column j conf) (enumerate 0 (OvO_pairs (nclasses self)))
              (replicate (nat (nclasses self)) 0) = Inr t" ..
      from vote_loop_length[OF t] k have "t \<noteq> []" by auto
      with t pairs[OF False] k0 show ?thesis by (simp add: OvO_decide_def)
    qed
    then have "\<exists>ds. sequence_e (map (\<lambda>this_dat. OvO_decide self (column this_dat conf)) [0 ..< m])
                 = Inr ds"
      by (intro sequence_e_total) auto
    then obtain ds where "sequence_e (map (\<lambda>this_dat. OvO_decide self (column this_dat conf)) [0 ..< m])
                 = Inr ds" ..
    with O W K sz show ?thesis
      by (simp add: predict_def Let_def conf_def m_def)
  qed
qed


subsection \<open>What a training step leaves unchanged\<close>

lemma matrix_eqI:
  assumes "length W' = length W" and "\<forall>c. length (W' ! c) = length (W ! c)"
    and "\<forall>c j. W' ! c ! j = W ! c ! j"
  shows "W' = (W::matrix)"
  using assms by (auto intro!: nth_equalityI)

lemma OvA_loop_frame:
  assumes "OvA_loop conf ls i cs (m, W) = Inr (m', W')" and "distinct cs"
  shows "length W' = length W \<and> (\<forall>c. length (W' ! c) = length (W ! c)) \<and>
         (\<forall>c j. j \<noteq> i \<longrightarrow> W' ! c ! j = W ! c ! j) \<and> m \<le> m' \<and> (m' = m \<longrightarrow> W' = W)"
proof -
  note e = OvA_loop_effect[OF assms]
  have "W' = W" if "m' = m"
  proof (rule matrix_eqI)
    from that e have z: "\<forall>c\<in>set cs. OvA_delta conf ls i c = 0"
      by (auto simp: filter_empty_conv)
    show "\<forall>c j. W' ! c ! j = W ! c ! j"
    proof (intro allI)
      fix c j show "W' ! c ! j = W ! c ! j"
        using e z by (cases "j = i"; cases "c \<in> set cs") auto
    qed
  qed (use e in auto)
  with e show ?thesis by simp
qed

lemma OvO_loop_frame:
  assumes "OvO_loop conf ls i tr (m, W) = Inr (m', W')" and "distinct (map fst tr)"
  shows "length W' = length W \<and> (\<forall>c. length (W' ! c) = length (W ! c)) \<and>
         (\<forall>c j. j \<noteq> i \<longrightarrow> W' ! c ! j = W ! c ! j) \<and> m \<le> m' \<and> (m' = m \<longrightarrow> W' = W)"
proof -
  note e = OvO_loop_effect[OF assms]
  have "W' = W" if "m' = m"
  proof (rule matrix_eqI)
    from that e have "sum_list (map (\<lambda>(p, a, b). OvO_hits conf ls i p a b) tr) = 0" by simp
    then have z: "OvO_hits conf ls i p a b = 0" if "(p, a, b) \<in> set tr" for p a b
      using that by (auto simp: sum_list_eq_0_iff)
    have d: "OvO_delta conf ls i p a b = 0" if "(p, a, b) \<in> set tr" for p a b
      using z[OF that] by (auto simp: OvO_hits_def OvO_delta_def split: if_splits)
    show "\<forall>c j. W' ! c ! j = W ! c ! j"
    proof (intro allI)
      fix c j show "W' ! c ! j = W ! c ! j"
      proof (cases "c \<in> fst ` set tr")
        case True
        then obtain a b where cab: "(c, a, b) \<in> set tr" by force
        with e have "W' ! c ! i = W ! c ! i + OvO_delta conf ls i c a b" by blast
        with d[OF cab] e show ?thesis by (cases "j = i") auto
      next
        case False
        with e show ?thesis by simp
      qed
    qed
  qed (use e in auto)
  with e show ?thesis by simp
qed

lemma train_example_frame:
  assumes "train_example self K i m = Inr (m', self')"
  shows "\<exists>W W'. classifier self = Some W \<and> self' = self\<lparr>classifier := Some W'\<rparr> \<and>
           length W' = length W \<and> (\<forall>c. length (W' ! c) = length (W ! c)) \<and>
           (\<forall>c j. j \<noteq> i \<longrightarrow> W' ! c ! j = W ! c ! j) \<and> m \<le> m' \<and> (m' = m \<longrightarrow> W' = W)"
proof -
  from assms obtain W where W: "classifier self = Some W"
    by (auto simp: train_example_def split: option.splits)
  define conf where "conf = map (\<lambda>row. dot row (K ! i)) W"
  have same: "self\<lparr>classifier := Some W\<rparr> = self" using W by simp
  consider (ova) "classification_method self = ''OvA''"
    | (ovo) "classification_method self \<noteq> ''OvA''" "classification_method self = ''OvO''"
    | (none) "classification_method self \<noteq> ''OvA''" "classification_method self \<noteq> ''OvO''"
    by blast
  then show ?thesis
  proof cases
    case ova
    with assms W obtain W' where
      l: "OvA_loop conf (labels (dataset self)) i [0 ..< nat (nclasses self)] (m, W) = Inr (m', W')"
      and s: "self' = self\<lparr>classifier := Some W'\<rparr>"
      by (auto simp: train_example_def conf_def Let_def split: if_splits sum.splits)
    from OvA_loop_frame[OF l distinct_upt] W s show ?thesis by blast
  next
    case ovo
    with assms W obtain W' ps where
      l: "OvO_loop conf (labels (dataset self)) i (enumerate 0 ps) (m, W) = Inr (m', W')"
      and s: "self' = self\<lparr>classifier := Some W'\<rparr>"
      by (auto simp: train_example_def conf_def Let_def split: if_splits sum.splits option.splits)
    have "distinct (map fst (enumerate 0 ps))" by simp
    from OvO_loop_frame[OF l this] W s show ?thesis by blast
  next
    case none
    with assms W have "m' = m" "self' = self"
      by (auto simp: train_example_def Let_def split: if_splits)
    with W same show ?thesis by (intro exI[of _ W]) auto
  qed
qed

lemma train_example_allocated:
  assumes "train_example self K i m = Inr (m', self')" and "allocated self"
  shows "allocated self'"
proof -
  from train_example_frame[OF assms(1)] obtain W W' where
    W: "classifier self = Some W" and s: "self' = self\<lparr>classifier := Some W'\<rparr>"
    and l: "length W' = length W" and r: "\<forall>c. length (W' ! c) = length (W ! c)" by blast
  have "\<forall>row\<in>set W'. length row = dsize (dataset self)"
    if "\<forall>row\<in>set W. length row = dsize (dataset self)"
    using that l r by (metis in_set_conv_nth)
  with assms(2) W s l show ?thesis
    by (auto simp: allocated_def list_all_iff split: if_splits)
qed

lemma init_allocated:
  assumes "init ds ts tr_idx te_idx k kmtx kparam cm = Inr self" and "0 \<le> k"
    and "cm = ''OvA'' \<or> cm = ''OvO''"
  shows "allocated self"
  using assms length_OvO_pairs_int[of k]
  by (auto simp: init_def allocated_def zeros_def Let_def list_all_iff split: if_splits)


subsection \<open>The labels returned by \<open>predict\<close>\<close>

lemma ex_OvA_predict: "predict ex_OvA [[1]] = Inr (Some [1, 0], ex_OvA)"
  by (simp add: predict_def ex_OvA_def kernel_block_def lookup_def np_dot_mm_def dot_def
      column_def Let_def)

lemma ex_OvO_predict: "predict ex_OvO [[1], [2]] = Inr (Some [2, 2], ex_OvO)"
  by code_simp

lemma OvO_pairs_3: "OvO_pairs 3 = [(0, 1), (0, 2), (1, 2)]"
  by (simp add: OvO_pairs_eq upt_rec)

lemma ex_OvA_allocated: "allocated ex_OvA"
  by (simp add: allocated_def ex_OvA_def)

lemma ex_OvO_allocated: "allocated ex_OvO"
  by (simp add: allocated_def ex_OvO_def OvO_pairs_3)

lemma ex_OvA_indices: "indices_in_range ex_OvA"
  by (simp add: indices_in_range_def ex_OvA_def)

lemma ex_OvO_indices: "indices_in_range ex_OvO"
  by (simp add: indices_in_range_def ex_OvO_def)

text \<open>
  C1 does not hold as stated: the number of labels is the number of stored test indices,
  not the number of points given. Here one point is given and two labels come back.
\<close>

theorem predict_length_counterexample:
  "predict ex_OvA [[1]] = Inr (Some [1, 0], ex_OvA) \<and> length [1, 0 :: nat] \<noteq> length [[1 :: real]]"
  by (simp add: ex_OvA_predict)

text \<open>
  C1, amended. In both modes, on an object shaped as \<open>__init__\<close> allocates it, whenever
  \<open>predict\<close> returns, it returns exactly one label per stored test index (the length of the
  result is the length of \<open>test_indices\<close>, whatever points are given), and every label lies
  in \<open>[0, nclasses)\<close>. It does return, leaving the object as it was, when \<open>nclasses \<ge> 1\<close>, the
  training-set size is the number of train indices and every index lies inside the kernel
  matrix.
\<close>

theorem predict_one_label_per_test_index:
  assumes "allocated self"
  shows "(\<forall>r self'. predict self points = Inr (r, self') \<longrightarrow>
            (\<exists>ds. r = Some ds \<and> length ds = length (test_indices self) \<and>
                  (\<forall>d\<in>set ds. 0 \<le> int d \<and> int d < nclasses self))) \<and>
         (1 \<le> nclasses self \<and> dsize (dataset self) = length (train_indices self) \<and>
          indices_in_range self \<longrightarrow>
            (\<exists>ds. predict self points = Inr (Some ds, self)))"
  using predict_labels[OF assms] predict_total[OF assms] by auto

theorem predict_one_label_per_test_index_witness:
  "allocated ex_OvA \<and> allocated ex_OvO \<and>
   (\<exists>ds. predict ex_OvA [[1]] = Inr (Some ds, ex_OvA) \<and> length ds = 2 \<and>
         list_all (\<lambda>d. int d < 2) ds) \<and>
   (\<exists>ds. predict ex_OvO [] = Inr (Some ds, ex_OvO) \<and> length ds = 2 \<and>
         list_all (\<lambda>d. int d < 3) ds)"
proof -
  have a: "1 \<le> nclasses ex_OvA \<and> dsize (dataset ex_OvA) = length (train_indices ex_OvA)"
    and ta: "length (test_indices ex_OvA) = 2" "nclasses ex_OvA = 2"
    by (simp_all add: ex_OvA_def)
  have b: "1 \<le> nclasses ex_OvO \<and> dsize (dataset ex_OvO) = length (train_indices ex_OvO)"
    and tb: "length (test_indices ex_OvO) = 2" "nclasses ex_OvO = 3"
    by (simp_all add: ex_OvO_def)
  from predict_one_label_per_test_index[OF ex_OvA_allocated, of "[[1]]"] a ex_OvA_indices ta
  have 1: "\<exists>ds. predict ex_OvA [[1]] = Inr (Some ds, ex_OvA) \<and> length ds = 2 \<and>
         list_all (\<lambda>d. int d < 2) ds"
    by (fastforce simp: list_all_iff)
  from predict_one_label_per_test_index[OF ex_OvO_allocated, of "[]"] b ex_OvO_indices tb
  have 2: "\<exists>ds. predict ex_OvO [] = Inr (Some ds, ex_OvO) \<and> length ds = 2 \<and>
         list_all (\<lambda>d. int d < 3) ds"
    by (fastforce simp: list_all_iff)
  from 1 2 ex_OvA_allocated ex_OvO_allocated show ?thesis by blast
qed

section \<open>The stopping rule of \<open>train\<close>\<close>

subsection \<open>The arithmetic of doubles\<close>

text \<open>
  \<open>fl\<close> at some numbers whose doubles are known: \<open>0.1\<close>, \<open>1e-5\<close> and \<open>-1/3\<close>, the ties
  \<open>2^53 + 1\<close> and \<open>2^53 + 3\<close> (to the even neighbour), a double (to itself), and the two
  ends of the range.
\<close>

lemma fl_examples:
  "fl (1 / 10) = Fin (3602879701896397 / 36028797018963968)"
  "fl (1 / 100000) = Fin (5902958103587057 / 590295810358705651712)"
  "fl (- (1 / 3)) = Fin (- (6004799503160661 / 18014398509481984))"
  "fl 9007199254740993 = Fin 9007199254740992"
  "fl 9007199254740995 = Fin 9007199254740996"
  "fl (3602879701896397 / 36028797018963968) = Fin (3602879701896397 / 36028797018963968)"
  by (simp_all add: fl_def round_half_even_def Let_def)

lemma fl_range:
  "fl (2 ^ 1024) = PInf"
  "fl (1 / 2 ^ 1075) = Fin 0"
  "fl (3 / 2 ^ 1075) = Fin (2 / 2 ^ 1074)"
  by (simp_all add: fl_def round_half_even_def Let_def)

text \<open>
  Where the doubles decide otherwise than the real numbers would: with the default
  tolerance and a test error that goes from \<open>6/100\<close> to \<open>7/100\<close>, the sum
  \<open>0.06 + 1e3*1e-5\<close> is the double just below \<open>0.07\<close>, so the rule fires, although
  \<open>6/100 + 1000/100000 < 7/100\<close> is false of the numbers themselves.
\<close>

lemma doubles_of_the_tie:
  "np_true_divide 6 100 = Fin (1080863910568919 / 18014398509481984)"
  "np_true_divide 7 100 = Fin (1261007895663739 / 18014398509481984)"
  "xmul (Fin 1000) (fl (1 / 100000)) = Fin (5764607523034235 / 576460752303423488)"
  "xadd (np_true_divide 6 100) (xmul (Fin 1000) (fl (1 / 100000))) =
     Fin (5044031582654955 / 72057594037927936)"
  by (simp_all add: np_true_divide_def fl_def round_half_even_def Let_def)

lemma stopping_rule_on_doubles:
  "converged (1 / 100000) (Fin 1) (np_true_divide 6 100) (1 / 2) (np_true_divide 7 100)"
  "\<not> (6 / 100 + 1000 * (1 / 100000) < (7 / 100 :: real))"
  by (simp_all add: converged_def doubles_of_the_tie xsub_def fl_def round_half_even_def Let_def)

subsection \<open>The epochs that \<open>train\<close> runs\<close>

lemma stops_at_Cons:
  "stops_at eps pt pe (x # h) (Suc j) = stops_at eps (Fin (fst x)) (fst (snd x)) h j"
  by (cases j) (simp_all add: stops_at_def)

lemma stops_at_0:
  "stops_at eps pt pe ((tr, te, s) # h) 0 = converged eps pt pe tr te"
  by (simp add: stops_at_def converged_def)

lemma train_epochs_stop:
  assumes "j < length (history n K self)"
    and "stops_at eps pt pe (history n K self) j"
    and "\<forall>i<j. \<not> stops_at eps pt pe (history n K self) i"
  shows "train_epochs n eps K pt pe last_err self =
           Inr (fst (history n K self ! j), snd (snd (history n K self ! j)))"
  using assms
proof (induction n arbitrary: j pt pe last_err self)
  case 0
  then show ?case by simp
next
  case (Suc n)
  from Suc.prems(1) obtain tr te s2 where ep: "epoch self K = Inr (tr, te, s2)"
    by (auto split: sum.splits)
  then have h: "history (Suc n) K self = (tr, te, s2) # history n K s2" by simp
  show ?case
  proof (cases j)
    case 0
    with Suc.prems(2) h have "converged eps pt pe tr te" by (simp add: stops_at_0)
    with ep h 0 show ?thesis by simp
  next
    case (Suc j')
    from Suc.prems(3) Suc h have n0: "\<not> converged eps pt pe tr te"
      by (metis stops_at_0 zero_less_Suc)
    have 1: "j' < length (history n K s2)" using Suc.prems(1) h Suc by simp
    have 2: "stops_at eps (Fin tr) te (history n K s2) j'"
      using Suc.prems(2) h Suc by (simp add: stops_at_Cons)
    have 3: "\<forall>i<j'. \<not> stops_at eps (Fin tr) te (history n K s2) i"
    proof (intro allI impI)
      fix i assume "i < j'"
      then have "Suc i < j" using Suc by simp
      with Suc.prems(3) have "\<not> stops_at eps pt pe (history (Suc n) K self) (Suc i)" by blast
      then show "\<not> stops_at eps (Fin tr) te (history n K s2) i"
        unfolding h by (simp add: stops_at_Cons)
    qed
    from Suc.IH[OF 1 2 3, of "Some tr"] ep n0 h Suc show ?thesis by simp
  qed
qed

lemma train_epochs_exhaust:
  assumes "length (history n K self) = n" and "0 < n"
    and "\<forall>i<n. \<not> stops_at eps pt pe (history n K self) i"
  shows "train_epochs n eps K pt pe last_err self =
           Inr (fst (last (history n K self)), snd (snd (last (history n K self))))"
  using assms
proof (induction n arbitrary: pt pe last_err self)
  case 0
  then show ?case by simp
next
  case (Suc n)
  from Suc.prems(1) obtain tr te s2 where ep: "epoch self K = Inr (tr, te, s2)"
    by (auto split: sum.splits)
  then have h: "history (Suc n) K self = (tr, te, s2) # history n K s2" by simp
  from Suc.prems(3) h have n0: "\<not> converged eps pt pe tr te"
    by (metis stops_at_0 zero_less_Suc)
  have 1: "length (history n K s2) = n" using Suc.prems(1) h by simp
  have 3: "\<forall>i<n. \<not> stops_at eps (Fin tr) te (history n K s2) i"
  proof (intro allI impI)
    fix i assume "i < n"
    with Suc.prems(3) have "\<not> stops_at eps pt pe (history (Suc n) K self) (Suc i)" by simp
    then show "\<not> stops_at eps (Fin tr) te (history n K s2) i"
      unfolding h by (simp add: stops_at_Cons)
  qed
  show ?case
  proof (cases n)
    case 0
    with ep n0 h show ?thesis by simp
  next
    case (Suc m)
    then have "0 < n" by simp
    from Suc.IH[OF 1 this 3, of "Some tr"] have
      "train_epochs n eps K (Fin tr) te (Some tr) s2 =
         Inr (fst (last (history n K s2)), snd (snd (last (history n K s2))))" .
    moreover have "history n K s2 \<noteq> []" using 1 Suc by auto
    ultimately show ?thesis using ep n0 h by simp
  qed
qed

lemma xlt_PInf: "\<not> xlt PInf y"
  by (cases y) simp_all

lemma xlt_NaN: "\<not> xlt NaN y"
  by (cases y) simp_all

lemma xadd_PInf: "xadd PInf z = PInf \<or> xadd PInf z = NaN"
  by (cases z) simp_all

lemma first_epoch_never_stops: "\<not> stops_at eps PInf PInf h 0"
proof -
  have "\<not> xlt (xsub PInf (Fin t)) e" for t e
    by (simp add: xsub_def xlt_PInf)
  moreover have "\<not> xlt (xadd PInf z) y" for z y
    using xadd_PInf[of z] xlt_PInf[of y] xlt_NaN[of y] by auto
  ultimately show ?thesis by (simp add: stops_at_def)
qed


text \<open>
  C2. \<open>train\<close> checks the stopping rule after each epoch against the errors of the epoch
  before, starting from \<open>+infinity\<close> for both (so the first epoch never stops it): at the
  first epoch \<open>j\<close> at which \<open>prev_train_error - train_error < epsilon\<close> or
  \<open>test_error > prev_test_error + 1000 * epsilon\<close>, both computed on doubles as the
  program computes them, it returns the training error of that epoch, with the object as
  that epoch left it; the epochs before \<open>j\<close> are those of a run that went on with their
  errors as the new baseline. When \<open>max_epochs > 0\<close> epochs complete and the rule fires at
  none, it returns the training error of the last one.
\<close>

theorem train_stopping_rule:
  assumes "kernel_block (kernel_mtx self) (train_indices self) (train_indices self) = Inr K"
  shows "(let h = history (nat max_epochs) K self in
     \<not> stops_at epsilon PInf PInf h 0 \<and>
     (\<forall>j < length h.
        stops_at epsilon PInf PInf h j \<and> (\<forall>i<j. \<not> stops_at epsilon PInf PInf h i) \<longrightarrow>
        train self max_epochs epsilon = Inr (fst (h ! j), snd (snd (h ! j)))) \<and>
     (length h = nat max_epochs \<and> 0 < max_epochs \<and>
      (\<forall>i < length h. \<not> stops_at epsilon PInf PInf h i) \<longrightarrow>
        train self max_epochs epsilon = Inr (fst (last h), snd (snd (last h)))))"
proof -
  have t: "train self max_epochs epsilon =
             train_epochs (nat max_epochs) epsilon K PInf PInf None self"
    using assms by (simp add: train_def)
  show ?thesis
    unfolding Let_def t
    using train_epochs_stop[of _ "nat max_epochs" K self epsilon PInf PInf None]
      train_epochs_exhaust[of "nat max_epochs" K self epsilon PInf PInf None]
      first_epoch_never_stops[of epsilon "history (nat max_epochs) K self"]
    by auto
qed

lemma ex_new_block:
  "kernel_block (kernel_mtx ex_new) (train_indices ex_new) (train_indices ex_new) = Inr [[1]]"
  by code_simp

lemma ex_new_history_5:
  "length (history (nat 5) [[1]] ex_new) = 5"
  "\<not> stops_at (1 / 100000) PInf PInf (history (nat 5) [[1]] ex_new) 0"
  "\<not> stops_at (1 / 100000) PInf PInf (history (nat 5) [[1]] ex_new) 1"
  "stops_at (1 / 100000) PInf PInf (history (nat 5) [[1]] ex_new) 2"
  "fst (history (nat 5) [[1]] ex_new ! 2) = 0"
  "snd (snd (history (nat 5) [[1]] ex_new ! 2)) = ex_new\<lparr>classifier := Some [[1], [0]]\<rparr>"
  by code_simp+

lemma ex_new_history_2:
  "length (history (nat 2) [[1]] ex_new) = nat 2"
  "\<not> stops_at (1 / 100000) PInf PInf (history (nat 2) [[1]] ex_new) 0"
  "\<not> stops_at (1 / 100000) PInf PInf (history (nat 2) [[1]] ex_new) 1"
  "fst (last (history (nat 2) [[1]] ex_new)) = 0"
  "snd (snd (last (history (nat 2) [[1]] ex_new))) = ex_new\<lparr>classifier := Some [[1], [0]]\<rparr>"
  by code_simp+

theorem train_stopping_rule_witness:
  "kernel_block (kernel_mtx ex_new) (train_indices ex_new) (train_indices ex_new) = Inr [[1]] \<and>
   train ex_new 5 (1 / 100000) = Inr (0, ex_new\<lparr>classifier := Some [[1], [0]]\<rparr>) \<and>
   train ex_new 2 (1 / 100000) = Inr (0, ex_new\<lparr>classifier := Some [[1], [0]]\<rparr>)"
proof -
  note five = train_stopping_rule[OF ex_new_block, of 5 "1 / 100000", unfolded Let_def]
  note two = train_stopping_rule[OF ex_new_block, of 2 "1 / 100000", unfolded Let_def]
  have lt2: "\<forall>i<2. \<not> stops_at (1 / 100000) PInf PInf (history (nat 5) [[1]] ex_new) i"
    using ex_new_history_5(2,3) by (auto simp: less_Suc_eq numeral_2_eq_2)
  from five have "\<forall>j < length (history (nat 5) [[1]] ex_new).
        stops_at (1 / 100000) PInf PInf (history (nat 5) [[1]] ex_new) j \<and>
        (\<forall>i<j. \<not> stops_at (1 / 100000) PInf PInf (history (nat 5) [[1]] ex_new) i) \<longrightarrow>
        train ex_new 5 (1 / 100000) =
          Inr (fst (history (nat 5) [[1]] ex_new ! j), snd (snd (history (nat 5) [[1]] ex_new ! j)))"
    by blast
  from this[rule_format, of 2] ex_new_history_5 lt2
  have a: "train ex_new 5 (1 / 100000) = Inr (0, ex_new\<lparr>classifier := Some [[1], [0]]\<rparr>)"
    by simp
  have all2: "\<forall>i<length (history (nat 2) [[1]] ex_new).
                \<not> stops_at (1 / 100000) PInf PInf (history (nat 2) [[1]] ex_new) i"
    using ex_new_history_2(1,2,3) by (auto simp: less_Suc_eq numeral_2_eq_2)
  from two have "length (history (nat 2) [[1]] ex_new) = nat 2 \<and> 0 < (2::int) \<and>
      (\<forall>i < length (history (nat 2) [[1]] ex_new).
          \<not> stops_at (1 / 100000) PInf PInf (history (nat 2) [[1]] ex_new) i) \<longrightarrow>
        train ex_new 2 (1 / 100000) =
          Inr (fst (last (history (nat 2) [[1]] ex_new)),
               snd (snd (last (history (nat 2) [[1]] ex_new))))"
    by blast
  with ex_new_history_2 all2
  have b: "train ex_new 2 (1 / 100000) = Inr (0, ex_new\<lparr>classifier := Some [[1], [0]]\<rparr>)"
    by simp
  from a b ex_new_block show ?thesis by simp
qed

section \<open>The weight matrix changes one column at a time\<close>

lemma test_error_state: "test_error self = Inr (x, self') \<Longrightarrow> self' = self"
  by (auto simp: test_error_def split: sum.splits dest: predict_state)

lemma confusion_matrix_state: "confusion_matrix self = Inr (x, self') \<Longrightarrow> self' = self"
  by (auto simp: confusion_matrix_def Let_def split: sum.splits option.splits if_splits
      dest: predict_state)

lemma count_mistake_vec_state: "count_mistake_vec self = Inr (x, self') \<Longrightarrow> self' = self"
  by (auto simp: count_mistake_vec_def Let_def split: sum.splits option.splits
      dest: predict_state)

lemma epoch_loop_frame:
  assumes "epoch_loop self K idxs m = Inr (m', self')" and "classifier self = Some W"
  shows "\<exists>W'. self' = self\<lparr>classifier := Some W'\<rparr> \<and> length W' = length W \<and>
           (\<forall>c. length (W' ! c) = length (W ! c)) \<and>
           (\<forall>c j. W' ! c ! j \<noteq> W ! c ! j \<longrightarrow> j \<in> set (epoch_updates self K idxs m)) \<and>
           set (epoch_updates self K idxs m) \<subseteq> set idxs"
  using assms
proof (induction idxs arbitrary: self m W)
  case Nil
  then show ?case by (intro exI[of _ W]) auto
next
  case (Cons i idxs)
  from Cons.prems(1) obtain m1 s1 where
    st: "train_example self K i m = Inr (m1, s1)" and
    rest: "epoch_loop s1 K idxs m1 = Inr (m', self')"
    by (auto split: sum.splits)
  from train_example_frame[OF st] Cons.prems(2) obtain W1 where
    s1: "s1 = self\<lparr>classifier := Some W1\<rparr>" and l1: "length W1 = length W"
    and r1: "\<forall>c. length (W1 ! c) = length (W ! c)"
    and c1: "\<forall>c j. j \<noteq> i \<longrightarrow> W1 ! c ! j = W ! c ! j"
    and m1: "m \<le> m1" "m1 = m \<longrightarrow> W1 = W"
    by auto
  have W1: "classifier s1 = Some W1" using s1 by simp
  from Cons.IH[OF rest W1] obtain W' where
    s': "self' = s1\<lparr>classifier := Some W'\<rparr>" and l': "length W' = length W1"
    and r': "\<forall>c. length (W' ! c) = length (W1 ! c)"
    and c': "\<forall>c j. W' ! c ! j \<noteq> W1 ! c ! j \<longrightarrow> j \<in> set (epoch_updates s1 K idxs m1)"
    and sub: "set (epoch_updates s1 K idxs m1) \<subseteq> set idxs"
    by blast
  have upd: "epoch_updates self K (i # idxs) m =
      (if m < m1 then [i] else []) @ epoch_updates s1 K idxs m1"
    using st by simp
  have "j \<in> set (epoch_updates self K (i # idxs) m)" if "W' ! c ! j \<noteq> W ! c ! j" for c j
  proof (cases "W' ! c ! j = W1 ! c ! j")
    case True
    with that have ne: "W1 ! c ! j \<noteq> W ! c ! j" by simp
    with c1 have "j = i" by blast
    moreover from ne m1 have "m < m1" by (cases "m1 = m") auto
    ultimately show ?thesis unfolding upd by simp
  next
    case False
    with c' show ?thesis unfolding upd by simp
  qed
  moreover have "set (epoch_updates self K (i # idxs) m) \<subseteq> set (i # idxs)"
    unfolding upd using sub by auto
  moreover have "self' = self\<lparr>classifier := Some W'\<rparr>" using s' s1 by simp
  ultimately show ?case using l' l1 r' r1 by (intro exI[of _ W']) auto
qed

lemma epoch_frame:
  assumes "epoch self K = Inr (tr, te, self')" and "classifier self = Some W"
  shows "\<exists>W'. self' = self\<lparr>classifier := Some W'\<rparr> \<and> length W' = length W \<and>
           (\<forall>c. length (W' ! c) = length (W ! c)) \<and>
           (\<forall>c j. W' ! c ! j \<noteq> W ! c ! j \<longrightarrow>
              j \<in> set (epoch_updates self K [0 ..< length (data (dataset self))] 0))"
proof -
  from assms(1) obtain m s1 where
    l: "epoch_loop self K [0 ..< length (data (dataset self))] 0 = Inr (m, s1)"
    and t: "test_error s1 = Inr (te, self')"
    by (auto simp: epoch_def split: sum.splits if_splits xfloat.splits)
  from test_error_state[OF t] have "self' = s1" .
  with epoch_loop_frame[OF l assms(2)] show ?thesis by blast
qed

lemma train_epochs_frame:
  assumes "train_epochs n eps K pt pe last_err self = Inr (err, self')"
    and "classifier self = Some W"
  shows "\<exists>W'. self' = self\<lparr>classifier := Some W'\<rparr> \<and> length W' = length W \<and>
           (\<forall>c. length (W' ! c) = length (W ! c)) \<and>
           (\<forall>c j. W' ! c ! j \<noteq> W ! c ! j \<longrightarrow> j \<in> set (train_updates n eps K pt pe self)) \<and>
           set (train_updates n eps K pt pe self) \<subseteq> {..< length (data (dataset self))}"
  using assms
proof (induction n arbitrary: pt pe last_err self W)
  case 0
  then have "self' = self" by (auto split: option.splits)
  with 0 show ?case by (intro exI[of _ W]) auto
next
  case (Suc n)
  from Suc.prems(1) obtain tr te s2 where ep: "epoch self K = Inr (tr, te, s2)"
    by (auto split: sum.splits)
  from epoch_frame[OF ep Suc.prems(2)] obtain W2 where
    s2: "s2 = self\<lparr>classifier := Some W2\<rparr>" and l2: "length W2 = length W"
    and r2: "\<forall>c. length (W2 ! c) = length (W ! c)"
    and c2: "\<forall>c j. W2 ! c ! j \<noteq> W ! c ! j \<longrightarrow>
              j \<in> set (epoch_updates self K [0 ..< length (data (dataset self))] 0)"
    by blast
  from ep obtain m s1 where
    l: "epoch_loop self K [0 ..< length (data (dataset self))] 0 = Inr (m, s1)"
    by (auto simp: epoch_def split: sum.splits if_splits xfloat.splits)
  from epoch_loop_frame[OF l Suc.prems(2)]
  have sub: "set (epoch_updates self K [0 ..< length (data (dataset self))] 0)
               \<subseteq> {..< length (data (dataset self))}"
    by auto
  show ?case
  proof (cases "converged eps pt pe tr te")
    case True
    with Suc.prems(1) ep have "self' = s2" by simp
    with s2 l2 r2 c2 sub ep True show ?thesis by (intro exI[of _ W2]) auto
  next
    case False
    with Suc.prems(1) ep have
      rec: "train_epochs n eps K (Fin tr) te (Some tr) s2 = Inr (err, self')" by simp
    have W2: "classifier s2 = Some W2" using s2 by simp
    from Suc.IH[OF rec W2] obtain W' where
      s': "self' = s2\<lparr>classifier := Some W'\<rparr>" and l': "length W' = length W2"
      and r': "\<forall>c. length (W' ! c) = length (W2 ! c)"
      and c': "\<forall>c j. W' ! c ! j \<noteq> W2 ! c ! j \<longrightarrow> j \<in> set (train_updates n eps K (Fin tr) te s2)"
      and sub': "set (train_updates n eps K (Fin tr) te s2) \<subseteq> {..< length (data (dataset s2))}"
      by blast
    have upd: "train_updates (Suc n) eps K pt pe self =
        epoch_updates self K [0 ..< length (data (dataset self))] 0 @
        train_updates n eps K (Fin tr) te s2"
      using ep False by simp
    have "j \<in> set (train_updates (Suc n) eps K pt pe self)" if "W' ! c ! j \<noteq> W ! c ! j" for c j
      using that c' c2 unfolding upd by (cases "W' ! c ! j = W2 ! c ! j") auto
    moreover have "set (train_updates (Suc n) eps K pt pe self) \<subseteq> {..< length (data (dataset self))}"
      unfolding upd using sub sub' s2 by auto
    moreover have "self' = self\<lparr>classifier := Some W'\<rparr>" using s' s2 by simp
    ultimately show ?thesis using l' l2 r' r2 by (intro exI[of _ W']) auto
  qed
qed

lemma all_zero_nth: "all_zero W \<Longrightarrow> c < length W \<Longrightarrow> j < length (W ! c) \<Longrightarrow> W ! c ! j = 0"
  by (auto simp: all_zero_def list_all_length)

lemma train_frame:
  assumes "train self max_epochs eps = Inr (err, self')"
    and "classifier self = Some W" and "all_zero W"
  shows "\<exists>W'. self' = self\<lparr>classifier := Some W'\<rparr> \<and>
           (\<forall>c j. c < length W' \<and> j < length (W' ! c) \<and> W' ! c ! j \<noteq> 0 \<longrightarrow>
                  j \<in> set (updated_examples self max_epochs eps)) \<and>
           set (updated_examples self max_epochs eps) \<subseteq> {..< length (data (dataset self))}"
proof -
  from assms(1) obtain K where
    K: "kernel_block (kernel_mtx self) (train_indices self) (train_indices self) = Inr K"
    and t: "train_epochs (nat max_epochs) eps K PInf PInf None self = Inr (err, self')"
    by (auto simp: train_def split: sum.splits)
  have u: "updated_examples self max_epochs eps = train_updates (nat max_epochs) eps K PInf PInf self"
    using K by (simp add: updated_examples_def)
  from train_epochs_frame[OF t assms(2)] obtain W' where
    s': "self' = self\<lparr>classifier := Some W'\<rparr>" and l': "length W' = length W"
    and r': "\<forall>c. length (W' ! c) = length (W ! c)"
    and c': "\<forall>c j. W' ! c ! j \<noteq> W ! c ! j \<longrightarrow> j \<in> set (train_updates (nat max_epochs) eps K PInf PInf self)"
    and sub: "set (train_updates (nat max_epochs) eps K PInf PInf self) \<subseteq> {..< length (data (dataset self))}"
    by blast
  have "j \<in> set (updated_examples self max_epochs eps)"
    if "c < length W'" "j < length (W' ! c)" "W' ! c ! j \<noteq> 0" for c j
  proof -
    from that l' r' have "c < length W" "j < length (W ! c)" by auto
    with all_zero_nth[OF assms(3)] have "W ! c ! j = 0" by simp
    with that have "W' ! c ! j \<noteq> W ! c ! j" by simp
    with c' show ?thesis unfolding u by blast
  qed
  with s' sub show ?thesis unfolding u by (intro exI[of _ W']) auto
qed

text \<open>Training keeps the shape of the weight matrix.\<close>

lemma train_allocated:
  assumes "train self max_epochs eps = Inr (err, self')" and "allocated self"
  shows "allocated self'"
proof -
  from assms(2) obtain W where W: "classifier self = Some W"
    by (auto simp: allocated_def split: option.splits)
  from assms(1) obtain K where
    t: "train_epochs (nat max_epochs) eps K PInf PInf None self = Inr (err, self')"
    by (auto simp: train_def split: sum.splits)
  from train_epochs_frame[OF t W] obtain W' where
    s: "self' = self\<lparr>classifier := Some W'\<rparr>" and l: "length W' = length W"
    and r: "\<forall>c. length (W' ! c) = length (W ! c)" by blast
  have "\<forall>row\<in>set W'. length row = dsize (dataset self)"
    if "\<forall>row\<in>set W. length row = dsize (dataset self)"
    using that l r by (metis in_set_conv_nth)
  with assms(2) W s l show ?thesis
    by (auto simp: allocated_def list_all_iff split: if_splits)
qed

lemma init_all_zero:
  "init ds ts tr_idx te_idx k kmtx kparam cm = Inr self \<Longrightarrow> classifier self = Some W \<Longrightarrow> all_zero W"
  by (auto simp: init_def Let_def zeros_def all_zero_def list_all_iff split: if_splits)


text \<open>
  C9. The weight matrix is all zero at construction. Processing a training example
  changes no column but that example's, and changes nothing when it raises no mistake.
  Hence after a pass over any examples, every column that differs from before belongs to
  an example of the pass that triggered an update; and after \<open>train\<close> on a zero matrix,
  every nonzero column is the column of a training example that triggered at least one
  update. \<open>predict\<close>, \<open>test_error\<close>, \<open>confusion_matrix\<close> and \<open>count_mistake_vec\<close> return the
  object as they received it.
\<close>

theorem classifier_columns:
  "(init ds ts tr_idx te_idx k kmtx kparam cm = Inr self_init \<and> classifier self_init = Some W_init \<longrightarrow>
      all_zero W_init) \<and>
   (train_example self K data_idx mistakes = Inr (mistakes', self_step) \<longrightarrow>
      (\<exists>W W'. classifier self = Some W \<and> self_step = self\<lparr>classifier := Some W'\<rparr> \<and>
         (\<forall>c j. j \<noteq> data_idx \<longrightarrow> W' ! c ! j = W ! c ! j) \<and>
         (mistakes' = mistakes \<longrightarrow> W' = W))) \<and>
   (epoch_loop self K idxs mistakes = Inr (mistakes', self_pass) \<and> classifier self = Some W \<longrightarrow>
      (\<exists>W'. self_pass = self\<lparr>classifier := Some W'\<rparr> \<and>
         (\<forall>c j. W' ! c ! j \<noteq> W ! c ! j \<longrightarrow> j \<in> set (epoch_updates self K idxs mistakes)) \<and>
         set (epoch_updates self K idxs mistakes) \<subseteq> set idxs)) \<and>
   (train self max_epochs epsilon = Inr (err, self_trained) \<and> classifier self = Some W \<and> all_zero W \<longrightarrow>
      (\<exists>W'. self_trained = self\<lparr>classifier := Some W'\<rparr> \<and>
         (\<forall>c j. c < length W' \<and> j < length (W' ! c) \<and> W' ! c ! j \<noteq> 0 \<longrightarrow>
                j \<in> set (updated_examples self max_epochs epsilon)) \<and>
         set (updated_examples self max_epochs epsilon) \<subseteq> {..< length (data (dataset self))})) \<and>
   (predict self points = Inr (r_p, self_p) \<longrightarrow> self_p = self) \<and>
   (test_error self = Inr (r_t, self_t) \<longrightarrow> self_t = self) \<and>
   (confusion_matrix self = Inr (r_c, self_c) \<longrightarrow> self_c = self) \<and>
   (count_mistake_vec self = Inr (r_m, self_m) \<longrightarrow> self_m = self)"
proof (intro conjI impI)
  assume "init ds ts tr_idx te_idx k kmtx kparam cm = Inr self_init \<and> classifier self_init = Some W_init"
  then show "all_zero W_init" using init_all_zero by blast
next
  assume "train_example self K data_idx mistakes = Inr (mistakes', self_step)"
  from train_example_frame[OF this]
  show "\<exists>W W'. classifier self = Some W \<and> self_step = self\<lparr>classifier := Some W'\<rparr> \<and>
         (\<forall>c j. j \<noteq> data_idx \<longrightarrow> W' ! c ! j = W ! c ! j) \<and>
         (mistakes' = mistakes \<longrightarrow> W' = W)"
    by blast
next
  assume "epoch_loop self K idxs mistakes = Inr (mistakes', self_pass) \<and> classifier self = Some W"
  then have "epoch_loop self K idxs mistakes = Inr (mistakes', self_pass)" "classifier self = Some W"
    by simp_all
  from epoch_loop_frame[OF this]
  show "\<exists>W'. self_pass = self\<lparr>classifier := Some W'\<rparr> \<and>
         (\<forall>c j. W' ! c ! j \<noteq> W ! c ! j \<longrightarrow> j \<in> set (epoch_updates self K idxs mistakes)) \<and>
         set (epoch_updates self K idxs mistakes) \<subseteq> set idxs"
    by blast
next
  assume "train self max_epochs epsilon = Inr (err, self_trained) \<and> classifier self = Some W \<and> all_zero W"
  then have "train self max_epochs epsilon = Inr (err, self_trained)" "classifier self = Some W"
    "all_zero W" by simp_all
  from train_frame[OF this]
  show "\<exists>W'. self_trained = self\<lparr>classifier := Some W'\<rparr> \<and>
         (\<forall>c j. c < length W' \<and> j < length (W' ! c) \<and> W' ! c ! j \<noteq> 0 \<longrightarrow>
                j \<in> set (updated_examples self max_epochs epsilon)) \<and>
         set (updated_examples self max_epochs epsilon) \<subseteq> {..< length (data (dataset self))}" .
next
  assume "predict self points = Inr (r_p, self_p)"
  then show "self_p = self" by (rule predict_state)
next
  assume "test_error self = Inr (r_t, self_t)"
  then show "self_t = self" by (rule test_error_state)
next
  assume "confusion_matrix self = Inr (r_c, self_c)"
  then show "self_c = self" by (rule confusion_matrix_state)
next
  assume "count_mistake_vec self = Inr (r_m, self_m)"
  then show "self_m = self" by (rule count_mistake_vec_state)
qed


lemma ex_two_init:
  "init \<lparr>data = [[1], [1]], labels = [0, 0], dsize = 2\<rparr> \<lparr>data = [[1]], labels = [0], dsize = 1\<rparr>
        [0, 1] [2] 2 [[1, 1, 1], [1, 1, 1], [1, 1, 1]] 1 ''OvA'' = Inr ex_two"
  by (simp add: init_def ex_two_def zeros_def numeral_2_eq_2)

lemma ex_two_step:
  "train_example ex_two [[1, 1], [1, 1]] 0 0 =
     Inr (1, ex_two\<lparr>classifier := Some [[1, 0], [0, 0]]\<rparr>)"
  by code_simp

lemma ex_two_pass:
  "epoch_loop ex_two [[1, 1], [1, 1]] [0, 1] 0 =
     Inr (1, ex_two\<lparr>classifier := Some [[1, 0], [0, 0]]\<rparr>)"
  "epoch_updates ex_two [[1, 1], [1, 1]] [0, 1] 0 = [0]"
  by code_simp+

lemma ex_two_train:
  "train ex_two 5 (1 / 100000) = Inr (0, ex_two\<lparr>classifier := Some [[1, 0], [0, 0]]\<rparr>)"
  "updated_examples ex_two 5 (1 / 100000) = [0]"
  by code_simp+

lemma ex_two_read_only:
  "predict (ex_two\<lparr>classifier := Some [[1, 0], [0, 0]]\<rparr>) [] =
     Inr (Some [0], ex_two\<lparr>classifier := Some [[1, 0], [0, 0]]\<rparr>)"
  "test_error (ex_two\<lparr>classifier := Some [[1, 0], [0, 0]]\<rparr>) =
     Inr (Fin 0, ex_two\<lparr>classifier := Some [[1, 0], [0, 0]]\<rparr>)"
  "confusion_matrix (ex_two\<lparr>classifier := Some [[1, 0], [0, 0]]\<rparr>) =
     Inr ([[0, 0], [0, 0]], ex_two\<lparr>classifier := Some [[1, 0], [0, 0]]\<rparr>)"
  "count_mistake_vec (ex_two\<lparr>classifier := Some [[1, 0], [0, 0]]\<rparr>) =
     Inr ([0, 0, 0], ex_two\<lparr>classifier := Some [[1, 0], [0, 0]]\<rparr>)"
  by code_simp+

theorem classifier_columns_witness:
  "init \<lparr>data = [[1], [1]], labels = [0, 0], dsize = 2\<rparr> \<lparr>data = [[1]], labels = [0], dsize = 1\<rparr>
        [0, 1] [2] 2 [[1, 1, 1], [1, 1, 1], [1, 1, 1]] 1 ''OvA'' = Inr ex_two \<and>
   classifier ex_two = Some [[0, 0], [0, 0]] \<and> all_zero [[0, 0], [0, 0]] \<and>
   train_example ex_two [[1, 1], [1, 1]] 0 0 =
     Inr (1, ex_two\<lparr>classifier := Some [[1, 0], [0, 0]]\<rparr>) \<and>
   epoch_loop ex_two [[1, 1], [1, 1]] [0, 1] 0 =
     Inr (1, ex_two\<lparr>classifier := Some [[1, 0], [0, 0]]\<rparr>) \<and>
   epoch_updates ex_two [[1, 1], [1, 1]] [0, 1] 0 = [0] \<and>
   train ex_two 5 (1 / 100000) = Inr (0, ex_two\<lparr>classifier := Some [[1, 0], [0, 0]]\<rparr>) \<and>
   updated_examples ex_two 5 (1 / 100000) = [0] \<and>
   (\<exists>W'. ex_two\<lparr>classifier := Some [[1, 0], [0, 0]]\<rparr> = ex_two\<lparr>classifier := Some W'\<rparr> \<and>
      W' ! 0 ! 0 \<noteq> 0 \<and> W' ! 0 ! 1 = 0 \<and> W' ! 1 ! 1 = 0 \<and>
      0 \<in> set (updated_examples ex_two 5 (1 / 100000)) \<and>
      set (updated_examples ex_two 5 (1 / 100000)) \<subseteq> {..< 2}) \<and>
   predict (ex_two\<lparr>classifier := Some [[1, 0], [0, 0]]\<rparr>) [] =
     Inr (Some [0], ex_two\<lparr>classifier := Some [[1, 0], [0, 0]]\<rparr>) \<and>
   test_error (ex_two\<lparr>classifier := Some [[1, 0], [0, 0]]\<rparr>) =
     Inr (Fin 0, ex_two\<lparr>classifier := Some [[1, 0], [0, 0]]\<rparr>) \<and>
   confusion_matrix (ex_two\<lparr>classifier := Some [[1, 0], [0, 0]]\<rparr>) =
     Inr ([[0, 0], [0, 0]], ex_two\<lparr>classifier := Some [[1, 0], [0, 0]]\<rparr>) \<and>
   count_mistake_vec (ex_two\<lparr>classifier := Some [[1, 0], [0, 0]]\<rparr>) =
     Inr ([0, 0, 0], ex_two\<lparr>classifier := Some [[1, 0], [0, 0]]\<rparr>)"
proof -
  let ?s = "ex_two\<lparr>classifier := Some [[1, 0], [0, 0]]\<rparr>"
  have c: "classifier ex_two = Some [[0, 0], [0, 0]]" by (simp add: ex_two_def)
  have d: "length (data (dataset ex_two)) = 2" by (simp add: ex_two_def)
  note T = classifier_columns[where self = ex_two and self_init = ex_two
      and W_init = "[[0, 0], [0, 0]]" and W = "[[0, 0], [0, 0]]"
      and K = "[[1, 1], [1, 1]]" and data_idx = 0 and mistakes = 0 and mistakes' = 1
      and self_step = ?s and idxs = "[0, 1]" and self_pass = ?s
      and max_epochs = 5 and epsilon = "1 / 100000" and err = 0 and self_trained = ?s
      and ds = "\<lparr>data = [[1], [1]], labels = [0, 0], dsize = 2\<rparr>"
      and ts = "\<lparr>data = [[1]], labels = [0], dsize = 1\<rparr>"
      and tr_idx = "[0, 1]" and te_idx = "[2]" and k = 2
      and kmtx = "[[1, 1, 1], [1, 1, 1], [1, 1, 1]]" and kparam = 1 and cm = "''OvA''"]
  note U = classifier_columns[where self = ?s and points = "[]" and r_p = "Some [0]"
      and self_p = ?s and r_t = "Fin 0" and self_t = ?s and r_c = "[[0, 0], [0, 0]]"
      and self_c = ?s and r_m = "[0, 0, 0]" and self_m = ?s]
  note T1 = T[THEN conjunct1]
  note T2 = T[THEN conjunct2, THEN conjunct1]
  note T3 = T[THEN conjunct2, THEN conjunct2, THEN conjunct1]
  note T4 = T[THEN conjunct2, THEN conjunct2, THEN conjunct2, THEN conjunct1]
  note U5 = U[THEN conjunct2, THEN conjunct2, THEN conjunct2, THEN conjunct2, THEN conjunct1]
  note U6 = U[THEN conjunct2, THEN conjunct2, THEN conjunct2, THEN conjunct2, THEN conjunct2,
      THEN conjunct1]
  note U7 = U[THEN conjunct2, THEN conjunct2, THEN conjunct2, THEN conjunct2, THEN conjunct2,
      THEN conjunct2, THEN conjunct1]
  note U8 = U[THEN conjunct2, THEN conjunct2, THEN conjunct2, THEN conjunct2, THEN conjunct2,
      THEN conjunct2, THEN conjunct2]
  have z: "all_zero [[0, 0], [0, 0]]" by (rule mp[OF T1 conjI[OF ex_two_init c]])
  from mp[OF T2 ex_two_step] obtain V V' where
    V: "classifier ex_two = Some V" "?s = ex_two\<lparr>classifier := Some V'\<rparr>"
    and Vcol: "\<forall>c j. j \<noteq> 0 \<longrightarrow> V' ! c ! j = V ! c ! j"
    by blast
  from V(2) have "classifier ?s = classifier (ex_two\<lparr>classifier := Some V'\<rparr>)"
    by (rule arg_cong)
  then have V': "V' = [[1, 0], [0, 0]]" by simp
  from V(1) c have Veq: "V = [[0, 0], [0, 0]]" by simp
  from Vcol[rule_format, of 1 0] Vcol[rule_format, of 1 1] V' Veq
  have col1: "[[1, 0], [0, 0]] ! 0 ! 1 = (0::real)" "[[1, 0], [0, 0]] ! 1 ! 1 = (0::real)"
    by simp_all
  from mp[OF T3 conjI[OF ex_two_pass(1) c]] have
    pass: "set (epoch_updates ex_two [[1, 1], [1, 1]] [0, 1] 0) \<subseteq> set [0, 1]"
    by blast
  from mp[OF T4 conjI[OF ex_two_train(1) conjI[OF c z]]] obtain W' where
    W': "?s = ex_two\<lparr>classifier := Some W'\<rparr>"
    and nz: "\<forall>c j. c < length W' \<and> j < length (W' ! c) \<and> W' ! c ! j \<noteq> 0 \<longrightarrow>
                j \<in> set (updated_examples ex_two 5 (1 / 100000))"
    and sub: "set (updated_examples ex_two 5 (1 / 100000)) \<subseteq> {..< length (data (dataset ex_two))}"
    by blast
  from W' have "classifier ?s = classifier (ex_two\<lparr>classifier := Some W'\<rparr>)"
    by (rule arg_cong)
  then have eq: "W' = [[1, 0], [0, 0]]" by simp
  from nz[rule_format, of 0 0] eq
  have in0: "0 \<in> set (updated_examples ex_two 5 (1 / 100000))" by simp
  have ro: "?s = ?s" "?s = ?s" "?s = ?s" "?s = ?s"
    by (rule mp[OF U5 ex_two_read_only(1)], rule mp[OF U6 ex_two_read_only(2)],
        rule mp[OF U7 ex_two_read_only(3)], rule mp[OF U8 ex_two_read_only(4)])
  have ex: "\<exists>W'. ?s = ex_two\<lparr>classifier := Some W'\<rparr> \<and>
      W' ! 0 ! 0 \<noteq> 0 \<and> W' ! 0 ! 1 = 0 \<and> W' ! 1 ! 1 = 0 \<and>
      0 \<in> set (updated_examples ex_two 5 (1 / 100000)) \<and>
      set (updated_examples ex_two 5 (1 / 100000)) \<subseteq> {..< 2}"
    using W' eq in0 sub d col1 by (intro exI[of _ W']) simp
  show ?thesis
    using ex_two_init c z ex_two_step ex_two_pass ex_two_train ex ex_two_read_only
    by (intro conjI) assumption+
qed

section \<open>The normalisation of the confusion matrix\<close>

text \<open>
  C4. With two classes, an all-zero weight matrix (every prediction is class \<open>0\<close>) and the
  test labels \<open>[0, 1, 1, 1]\<close>, the three misclassified points are counted in cell \<open>(1, 0)\<close>.
  \<open>confusion_matrix\<close> then divides that cell by the number of test points of class \<open>0\<close>
  (one), the class of its column, and returns \<open>3\<close>; divided by the number of test points
  of the class of its row (three), as C4 says, it would be \<open>1\<close>.
\<close>

theorem confusion_matrix_divides_columns:
  "predict ex_conf (data (test_set ex_conf)) = Inr (Some [0, 0, 0, 0], ex_conf) \<and>
   np_unique_counts (labels (test_set ex_conf)) = [1, 3] \<and>
   confusion_matrix ex_conf = Inr ([[0, 0], [3, 0]], ex_conf)"
  by code_simp

section \<open>The kernel utility returns nothing for an unknown kernel type\<close>

lemma sequence_e_all_Inr:
  "(\<forall>x\<in>set xs. g x = Inr (f x)) \<Longrightarrow> sequence_e (map g xs) = Inr (map f xs)"
  by (induction xs) auto

lemma pairwise_e_same_width:
  assumes "\<forall>u\<in>set x1. \<forall>v\<in>set x2. length u = length v"
  shows "pairwise_e f x1 x2 = Inr (map (\<lambda>u. map (f u) x2) x1)"
  unfolding pairwise_e_def
proof (rule sequence_e_all_Inr, rule ballI)
  fix u assume u: "u \<in> set x1"
  show "sequence_e (map (\<lambda>v. if length u = length v then Inr (f u v) else Inl ValueError) x2)
          = Inr (map (f u) x2)"
    by (rule sequence_e_all_Inr) (use assms u in auto)
qed

lemma np_power_of_nat: "np_power g (of_nat d) = g ^ d"
  by (simp add: np_power_def)

lemma sq_dist_nonneg: "0 \<le> sq_dist u v"
  unfolding sq_dist_def by (rule sum_list_nonneg) auto

lemma sqrt_sq_dist: "(sqrt (sq_dist u v))\<^sup>2 = sq_dist u v"
  by (simp add: sq_dist_nonneg)

text \<open>
  C7 does not hold of \<open>kernel_output\<close>: with the kernel type \<open>'linear'\<close> it raises
  nothing and returns \<open>None\<close>.
\<close>

theorem kernel_output_no_raise_counterexample:
  "kernel_output (ex_conf\<lparr>kernel_func := Some ''linear''\<rparr>) [[1]] [[1]] =
     Inr (None, ex_conf\<lparr>kernel_func := Some ''linear''\<rparr>)"
  by (simp add: kernel_output_def)

text \<open>
  C7, amended. On an object whose attribute \<open>kernel_func\<close> holds the kernel type,
  \<open>kernel_output\<close> raises no error for a kernel type other than \<open>'polynomial'\<close> and
  \<open>'Gaussian'\<close>: it returns \<open>None\<close>. For \<open>'polynomial'\<close> with a degree \<open>d\<close> (a natural
  number) it returns the matrix of the \<open>(u \<cdot> v)^d\<close>, and for \<open>'Gaussian'\<close> the matrix of
  the \<open>exp (- \<gamma> * \<parallel>u - v\<parallel>\<^sup>2)\<close>, for the rows \<open>u\<close> of \<open>x1\<close> and \<open>v\<close> of \<open>x2\<close>, all of one
  length.
\<close>

theorem kernel_output_cases:
  assumes "kernel_func self = Some kf"
  shows "(kf \<noteq> ''polynomial'' \<and> kf \<noteq> ''Gaussian'' \<longrightarrow>
            kernel_output self x1 x2 = Inr (None, self)) \<and>
         (kf = ''polynomial'' \<and> (\<forall>u\<in>set x1. \<forall>v\<in>set x2. length u = length v) \<and>
          kernel_param self = of_nat d \<longrightarrow>
            kernel_output self x1 x2 =
              Inr (Some (map (\<lambda>u. map (\<lambda>v. (dot u v) ^ d) x2) x1), self)) \<and>
         (kf = ''Gaussian'' \<and> (\<forall>u\<in>set x1. \<forall>v\<in>set x2. length u = length v) \<longrightarrow>
            kernel_output self x1 x2 =
              Inr (Some (map (\<lambda>u. map (\<lambda>v. exp (- kernel_param self * sq_dist u v)) x2) x1),
                   self))"
  using assms
  by (auto simp: kernel_output_def pairwise_e_same_width np_power_of_nat sqrt_sq_dist
      simp del: of_nat_power)

theorem kernel_output_cases_witness:
  "kernel_output (ex_conf\<lparr>kernel_func := Some ''linear''\<rparr>) [[1]] [[1]] =
     Inr (None, ex_conf\<lparr>kernel_func := Some ''linear''\<rparr>) \<and>
   kernel_output (ex_conf\<lparr>kernel_param := 2, kernel_func := Some ''polynomial''\<rparr>)
       [[1, 2]] [[3, 4]] =
     Inr (Some [[121]], ex_conf\<lparr>kernel_param := 2, kernel_func := Some ''polynomial''\<rparr>) \<and>
   kernel_output (ex_conf\<lparr>kernel_func := Some ''Gaussian''\<rparr>) [[1, 2]] [[1, 2]] =
     Inr (Some [[1]], ex_conf\<lparr>kernel_func := Some ''Gaussian''\<rparr>)"
  using kernel_output_cases[of "ex_conf\<lparr>kernel_func := Some ''linear''\<rparr>" "''linear''"
          "[[1]]" "[[1]]" 0]
    kernel_output_cases[of "ex_conf\<lparr>kernel_param := 2, kernel_func := Some ''polynomial''\<rparr>"
          "''polynomial''" "[[1, 2]]" "[[3, 4]]" 2]
    kernel_output_cases[of "ex_conf\<lparr>kernel_func := Some ''Gaussian''\<rparr>" "''Gaussian''"
          "[[1, 2]]" "[[1, 2]]" 0]
  by (simp add: dot_def sq_dist_def)

end
